theory Spec2Isabelle
  imports Complex_Main "HOL-Library.Sublist"
begin

section \<open>Python values used by the bot\<close>

text \<open>
  A Python \<open>str\<close> is modelled as a \<open>string\<close> holding its UTF-8 bytes. The operations
  the bot applies to text it matches on (\<open>==\<close>, \<open>in\<close>, \<open>startswith\<close>, \<open>replace\<close>,
  \<open>split(":")\<close>, concatenation) give the same result on the bytes as on the code points.
  \<open>strip\<close> and \<open>int\<close> are modelled on ASCII: white space and digits outside ASCII, and the
  interpreter's limit on the number of digits, are not represented.
\<close>

definition is_space :: "char \<Rightarrow> bool" where
  "is_space c = (let n = (of_char c :: nat) in (9 \<le> n \<and> n \<le> 13) \<or> (28 \<le> n \<and> n \<le> 32))"

definition strip :: "string \<Rightarrow> string" where
  "strip s = rev (dropWhile is_space (rev (dropWhile is_space s)))"

fun split_on :: "char \<Rightarrow> string \<Rightarrow> string list" where
  "split_on c [] = [[]]"
| "split_on c (x # xs) =
     (if x = c then [] # split_on c xs
      else (case split_on c xs of [] \<Rightarrow> [[x]] | p # ps \<Rightarrow> (x # p) # ps))"

definition is_digit :: "char \<Rightarrow> bool" where
  "is_digit c = (let n = (of_char c :: nat) in 48 \<le> n \<and> n \<le> 57)"

definition digit_val :: "char \<Rightarrow> nat" where
  "digit_val c = of_char c - 48"

definition digit_char :: "nat \<Rightarrow> char" where
  "digit_char d = char_of (48 + d)"

text \<open>The digits of an \<open>int\<close> literal: at least one digit, single underscores between digits.\<close>

fun parse_digits :: "nat \<Rightarrow> string \<Rightarrow> nat option" where
  "parse_digits acc [] = None"
| "parse_digits acc [c] = (if is_digit c then Some (10 * acc + digit_val c) else None)"
| "parse_digits acc (c # d # ds) =
     (if is_digit c
      then (if d = CHR ''_'' then parse_digits (10 * acc + digit_val c) ds
            else parse_digits (10 * acc + digit_val c) (d # ds))
      else None)"

text \<open>\<open>int(s)\<close>: \<open>None\<close> stands for \<open>ValueError\<close>.\<close>

definition py_int :: "string \<Rightarrow> int option" where
  "py_int s =
     (case strip s of
        [] \<Rightarrow> None
      | c # cs \<Rightarrow>
          if c = CHR ''-'' then map_option (\<lambda>n. - int n) (parse_digits 0 cs)
          else if c = CHR ''+'' then map_option int (parse_digits 0 cs)
          else map_option int (parse_digits 0 (c # cs)))"

text \<open>Decimal rendering of a natural number, and the format \<open>{n:02d}\<close>.\<close>

fun dec :: "nat \<Rightarrow> string" where
  "dec n = (if n < 10 then [digit_char n] else dec (n div 10) @ [digit_char (n mod 10)])"

declare dec.simps [simp del]

definition fmt02d :: "int \<Rightarrow> string" where
  "fmt02d n =
     (if n < 0 then CHR ''-'' # dec (nat (- n))
      else if n < 10 then CHR ''0'' # dec (nat n)
      else dec (nat n))"

text \<open>\<open>s.replace(pat, "")\<close> for a non-empty \<open>pat\<close>: every occurrence is removed, left to right.\<close>

function remove_all :: "string \<Rightarrow> string \<Rightarrow> string" where
  "remove_all pat [] = []"
| "remove_all pat (c # cs) =
     (if pat \<noteq> [] \<and> prefix pat (c # cs) then remove_all pat (drop (length pat) (c # cs))
      else c # remove_all pat cs)"
  by pat_completeness auto
termination
  by (relation "measure (\<lambda>(pat, s). length s)") (auto simp: prefix_def)

text \<open>
  The values \<open>json.load\<close> produces. \<open>JFloat\<close> carries a finite number; the non-standard
  \<open>NaN\<close> and \<open>Infinity\<close> are not represented.
\<close>

datatype json =
    JNull
  | JBool bool
  | JInt int
  | JFloat real
  | JStr string
  | JArr "json list"
  | JObj "(string \<times> json) list"

text \<open>Truth value of a Python object, as \<open>if x:\<close> and \<open>not x\<close> take it.\<close>

fun truthy :: "json \<Rightarrow> bool" where
  "truthy JNull = False"
| "truthy (JBool b) = b"
| "truthy (JInt i) = (i \<noteq> 0)"
| "truthy (JFloat r) = (r \<noteq> 0)"
| "truthy (JStr s) = (s \<noteq> [])"
| "truthy (JArr xs) = (xs \<noteq> [])"
| "truthy (JObj kvs) = (kvs \<noteq> [])"

text \<open>
  \<open>backup_settings\<close> is a Python dict with string keys. The settings file, when it holds
  JSON, is taken to hold an object.
\<close>

type_synonym settings = "string \<rightharpoonup> json"

definition dict_get :: "settings \<Rightarrow> string \<Rightarrow> json \<Rightarrow> json" where
  "dict_get d k dflt = (case d k of None \<Rightarrow> dflt | Some v \<Rightarrow> v)"

datatype py_error = ValueError | TypeError | AttributeError

text \<open>\<open>n > v\<close> for a length \<open>n\<close> and a loaded value \<open>v\<close>.\<close>

fun len_gt :: "nat \<Rightarrow> json \<Rightarrow> py_error + bool" where
  "len_gt n (JInt k) = Inr (int n > k)"
| "len_gt n (JBool b) = Inr (int n > (if b then 1 else 0))"
| "len_gt n (JFloat r) = Inr (real n > r)"
| "len_gt n v = Inl TypeError"

text \<open>\<open>xs[v:]\<close>: a negative start counts from the end.\<close>

definition slice_int :: "'a list \<Rightarrow> int \<Rightarrow> 'a list" where
  "slice_int xs k =
     (if k < 0 then drop (nat (max 0 (int (length xs) + k))) xs else drop (nat k) xs)"

fun slice_from :: "'a list \<Rightarrow> json \<Rightarrow> py_error + 'a list" where
  "slice_from xs (JInt k) = Inr (slice_int xs k)"
| "slice_from xs (JBool b) = Inr (slice_int xs (if b then 1 else 0))"
| "slice_from xs v = Inl TypeError"

section \<open>Configuration, files and state\<close>

record config =
  ADMIN_ID :: int
  BACKUP_CHAT_ID :: int
  AUTO_BACKUP_ENABLED :: bool
  AUTO_BACKUP_INTERVAL :: string
  AUTO_BACKUP_TIME :: string
  AUTO_BACKUP_KEEP_COUNT :: int

text \<open>
  A file of the backup directory: its name, its modification time, whether the operating
  system refuses to unlink it, and whether its archive was written to the end.
\<close>

record dir_entry =
  fname :: string
  mtime :: int
  locked :: bool
  intact :: bool

datatype 'a disk_file = Absent | Corrupt | Holds 'a

type_synonym player = "string \<times> string"

record bot =
  backup_settings :: settings
  backup_job :: "string option"
  whitelist_cache :: "player list"
  settings_file :: "settings disk_file"
  whitelist_file :: "player list disk_file"
  backup_dir :: "dir_entry list"
  command_file :: "string list"

text \<open>What the collaborators outside the bot answer while one handler or task runs.\<close>

datatype tar_outcome = Tar_ok | Tar_open_fails | Tar_add_fails

record env =
  world_exists :: bool
  stamp :: string
  now :: int
  tar :: tar_outcome
  upload_ok :: bool
  rcon_ok :: "string \<Rightarrow> bool"
  command_file_ok :: bool
  systemctl_ok :: "string \<Rightarrow> bool"
  settings_writable :: bool
  whitelist_writable :: bool
  crontab_ok :: "string \<Rightarrow> bool"

section \<open>Observable events\<close>

datatype log_msg =
    Deleted_old_backup string
  | Cleanup_failed
  | Auto_backup_running
  | Auto_backup_sent string
  | Auto_backup_send_failed
  | Auto_backup_create_failed
  | Backups_disabled
  | Backups_configured string
  | Backup_setup_failed
  | Settings_save_failed
  | Settings_load_failed
  | Whitelist_load_failed
  | Whitelist_save_failed
  | Rcon_done string
  | Command_written string
  | Command_write_failed

text \<open>The message of \<open>create_backup\<close>'s result.\<close>

datatype backup_msg = World_missing | Created string | Create_error

text \<open>
  What a reply shows. Fixed texts are named; a text computed from the server (status,
  information, log lines) is named by its source, so that a reply carrying it is visible
  as a disclosure.
\<close>

datatype content =
    No_access
  | Welcome
  | Status_text
  | Info_text
  | Logs_tail int
  | Whitelist_menu
  | Creating_backup
  | Backup_result backup_msg
  | Backup_not_sent
  | Usage_command
  | Command_sent string
  | Command_error
  | Usage_message
  | Message_sent string
  | Help_text
  | Service_status_text
  | Control_menu
  | Whitelist_shown "string list"
  | Main_menu
  | Server_starting
  | Server_stopped
  | Server_restarting
  | Systemctl_error
  | Command_dispatched string
  | Prompt_add_player
  | Whitelist_empty
  | Choose_player "string list"
  | Player_not_found string
  | Player_removed string
  | Remove_error string
  | Prompt_message
  | Settings_view
  | Toggled bool
  | Prompt_interval
  | Interval_set string
  | Prompt_time
  | Prompt_count
  | Player_exists string
  | Player_added string
  | Player_added_file_only
  | Add_error string
  | Time_set string
  | Time_invalid
  | Count_set int
  | Count_invalid

datatype event =
    Answer content
  | Edit_text content
  | Callback_answer "content option" bool
  | Log_info log_msg
  | Log_error log_msg
  | Retention_pass
  | Unlinked string
  | Send_document int string
  | Stop_job string
  | Rcon_sent string
  | Systemctl string

section \<open>Authorization\<close>

definition is_admin :: "config \<Rightarrow> int \<Rightarrow> bool" where
  "is_admin cfg user_id = (user_id = ADMIN_ID cfg)"

section \<open>Retention: \<open>cleanup_old_backups\<close>\<close>

definition prefix_name :: string where
  "prefix_name = ''world_backup_''"

definition suffix_name :: string where
  "suffix_name = ''.tar.gz''"

text \<open>The glob pattern \<open>world_backup_*.tar.gz\<close>.\<close>

definition is_backup_name :: "string \<Rightarrow> bool" where
  "is_backup_name n =
     (length prefix_name + length suffix_name \<le> length n
      \<and> prefix prefix_name n \<and> suffix suffix_name n)"

definition glob_backups :: "dir_entry list \<Rightarrow> dir_entry list" where
  "glob_backups dir = filter (\<lambda>f. is_backup_name (fname f)) dir"

text \<open>\<open>sort(key=mtime, reverse=True)\<close>: newest first, equal keys keep their order.\<close>

definition newest_first :: "dir_entry list \<Rightarrow> dir_entry list" where
  "newest_first fs = sort_key (\<lambda>f. - mtime f) fs"

text \<open>
  The loop over the excess files. An \<open>unlink\<close> that raises leaves the loop: the exception
  is caught by the handler around the whole function body.
\<close>

fun unlink_each :: "dir_entry list \<Rightarrow> dir_entry list \<Rightarrow> dir_entry list \<times> event list" where
  "unlink_each [] dir = (dir, [])"
| "unlink_each (f # fs) dir =
     (if locked f then (dir, [Log_error Cleanup_failed])
      else (case unlink_each fs (filter (\<lambda>g. fname g \<noteq> fname f) dir) of
              (dir', evs) \<Rightarrow>
                (dir', Unlinked (fname f) # Log_info (Deleted_old_backup (fname f)) # evs)))"

definition cleanup_old_backups :: "settings \<Rightarrow> dir_entry list \<Rightarrow> dir_entry list \<times> event list" where
  "cleanup_old_backups st dir =
     (let backup_files = newest_first (glob_backups dir);
          keep_count = dict_get st ''keep_count'' (JInt 7)
      in case len_gt (length backup_files) keep_count of
           Inl e \<Rightarrow> (dir, [Retention_pass, Log_error Cleanup_failed])
         | Inr False \<Rightarrow> (dir, [Retention_pass])
         | Inr True \<Rightarrow>
             (case slice_from backup_files keep_count of
                Inl e \<Rightarrow> (dir, [Retention_pass, Log_error Cleanup_failed])
              | Inr olds \<Rightarrow>
                  (case unlink_each olds dir of (dir', evs) \<Rightarrow> (dir', Retention_pass # evs))))"

section \<open>Archive builder: \<open>create_backup\<close>\<close>

definition backup_name_of :: "string \<Rightarrow> string" where
  "backup_name_of ts = prefix_name @ ts @ suffix_name"

text \<open>Opening a file for writing creates it, or truncates the file of that name.\<close>

definition write_file :: "dir_entry \<Rightarrow> dir_entry list \<Rightarrow> dir_entry list" where
  "write_file f dir = filter (\<lambda>g. fname g \<noteq> fname f) dir @ [f]"

text \<open>
  The result is the triple the source returns: success, the message, and the path.
\<close>

definition create_backup ::
  "env \<Rightarrow> dir_entry list \<Rightarrow> dir_entry list \<times> (bool \<times> backup_msg \<times> string option)" where
  "create_backup e dir =
     (if \<not> world_exists e then (dir, (False, World_missing, None))
      else
        let backup_name = backup_name_of (stamp e) in
        case tar e of
          Tar_open_fails \<Rightarrow> (dir, (False, Create_error, None))
        | Tar_add_fails \<Rightarrow>
            (write_file \<lparr>fname = backup_name, mtime = now e, locked = False, intact = False\<rparr> dir,
             (False, Create_error, None))
        | Tar_ok \<Rightarrow>
            (write_file \<lparr>fname = backup_name, mtime = now e, locked = False, intact = True\<rparr> dir,
             (True, Created backup_name, Some backup_name)))"

section \<open>The scheduled pipeline: \<open>auto_backup_task\<close>\<close>

definition auto_backup_task :: "config \<Rightarrow> env \<Rightarrow> bot \<Rightarrow> bot \<times> event list" where
  "auto_backup_task cfg e s =
     (case create_backup e (backup_dir s) of
        (dir1, (success, result, backup_path)) \<Rightarrow>
          (case (success, backup_path) of
             (True, Some p) \<Rightarrow>
               (case cleanup_old_backups (backup_settings s) dir1 of
                  (dir2, evs) \<Rightarrow>
                    (s\<lparr>backup_dir := dir2\<rparr>,
                     Log_info Auto_backup_running # evs @
                     (if p \<in> set (map fname dir2) \<and> upload_ok e
                      then [Send_document (BACKUP_CHAT_ID cfg) p, Log_info (Auto_backup_sent p)]
                      else [Log_error Auto_backup_send_failed])))
           | _ \<Rightarrow>
               (s\<lparr>backup_dir := dir1\<rparr>,
                [Log_info Auto_backup_running, Log_error Auto_backup_create_failed])))"

section \<open>Settings store\<close>

definition save_backup_settings :: "env \<Rightarrow> bot \<Rightarrow> bot \<times> event list \<times> bool" where
  "save_backup_settings e s =
     (if settings_writable e
      then (s\<lparr>settings_file := Holds (backup_settings s)\<rparr>, [], True)
      else (s, [Log_error Settings_save_failed], False))"

text \<open>The loaded object replaces the settings in memory as it is.\<close>

definition load_backup_settings :: "bot \<Rightarrow> bot \<times> event list \<times> bool" where
  "load_backup_settings s =
     (case settings_file s of
        Holds loaded \<Rightarrow> (s\<lparr>backup_settings := loaded\<rparr>, [], True)
      | Absent \<Rightarrow> (s, [], False)
      | Corrupt \<Rightarrow> (s, [Log_error Settings_load_failed], False))"

section \<open>Scheduler: \<open>setup_auto_backup\<close>\<close>

text \<open>\<open>hour, minute = backup_time.split(":")\<close>\<close>

fun hour_minute :: "json \<Rightarrow> py_error + string \<times> string" where
  "hour_minute (JStr t) =
     (case split_on CHR '':'' t of [hour, minute] \<Rightarrow> Inr (hour, minute) | _ \<Rightarrow> Inl ValueError)"
| "hour_minute v = Inl AttributeError"

text \<open>
  The crontab expression of the branch the interval selects; \<open>Inr None\<close> when no branch
  of the chain matches, \<open>Inl\<close> when the branch raises.
\<close>

definition cron_spec :: "json \<Rightarrow> json \<Rightarrow> py_error + string option" where
  "cron_spec interval backup_time =
     (if interval = JStr ''15min'' then Inr (Some ''*/15 * * * *'')
      else if interval = JStr ''30min'' then Inr (Some ''*/30 * * * *'')
      else if interval = JStr ''hourly'' then Inr (Some ''0 * * * *'')
      else if interval = JStr ''daily'' then
        (case hour_minute backup_time of
           Inl err \<Rightarrow> Inl err
         | Inr (hour, minute) \<Rightarrow> Inr (Some (minute @ '' '' @ hour @ '' * * *'')))
      else if interval = JStr ''weekly'' then
        (case hour_minute backup_time of
           Inl err \<Rightarrow> Inl err
         | Inr (hour, minute) \<Rightarrow> Inr (Some (minute @ '' '' @ hour @ '' * * 0'')))
      else Inr None)"

text \<open>
  The armed job is represented by its crontab expression. \<open>crontab_ok\<close> says whether the
  cron library returns a job for an expression or raises.
\<close>

definition setup_auto_backup :: "env \<Rightarrow> bot \<Rightarrow> bot \<times> event list" where
  "setup_auto_backup e s =
     (let stopped = (case backup_job s of None \<Rightarrow> [] | Some job \<Rightarrow> [Stop_job job]);
          s1 = s\<lparr>backup_job := None\<rparr>
      in if \<not> truthy (dict_get (backup_settings s) ''enabled'' (JBool False))
         then (s1, stopped @ [Log_info Backups_disabled])
         else
           let interval = dict_get (backup_settings s) ''interval'' (JStr ''daily'');
               backup_time = dict_get (backup_settings s) ''time'' (JStr ''03:00'')
           in case cron_spec interval backup_time of
                Inl err \<Rightarrow> (s1, stopped @ [Log_error Backup_setup_failed])
              | Inr None \<Rightarrow> (s1, stopped)
              | Inr (Some spec) \<Rightarrow>
                  if crontab_ok e spec
                  then (s1\<lparr>backup_job := Some spec\<rparr>, stopped @ [Log_info (Backups_configured spec)])
                  else (s1, stopped @ [Log_error Backup_setup_failed]))"

section \<open>Allow-list store and command relay\<close>

definition load_whitelist :: "bot \<Rightarrow> bot \<times> event list \<times> player list" where
  "load_whitelist s =
     (case whitelist_file s of
        Holds wl \<Rightarrow> (s\<lparr>whitelist_cache := wl\<rparr>, [], wl)
      | Absent \<Rightarrow> (s\<lparr>whitelist_cache := []\<rparr>, [], [])
      | Corrupt \<Rightarrow> (s\<lparr>whitelist_cache := []\<rparr>, [Log_error Whitelist_load_failed], []))"

definition save_whitelist :: "env \<Rightarrow> bot \<Rightarrow> player list \<Rightarrow> bot \<times> event list \<times> bool" where
  "save_whitelist e s wl =
     (if whitelist_writable e
      then (s\<lparr>whitelist_file := Holds wl, whitelist_cache := wl\<rparr>, [], True)
      else (s, [Log_error Whitelist_save_failed], False))"

text \<open>
  \<open>execute_server_command\<close>: RCON first; otherwise the command is appended to the
  command file, which counts as success.
\<close>

definition execute_server_command :: "env \<Rightarrow> bot \<Rightarrow> string \<Rightarrow> bot \<times> event list \<times> bool" where
  "execute_server_command e s cmd =
     (if rcon_ok e cmd then (s, [Rcon_sent cmd, Log_info (Rcon_done cmd)], True)
      else if command_file_ok e
      then (s\<lparr>command_file := command_file s @ [cmd]\<rparr>, [Log_info (Command_written cmd)], True)
      else (s, [Log_error Command_write_failed], False))"

section \<open>Inbound requests\<close>

text \<open>
  A message carries the requester, its text, the text of the message it replies to (if
  any), and the command the framework's command filter has decoded from the text (name
  and arguments), if the text is a command. A button press carries the requester and the
  callback data.
\<close>

record message =
  from_user_id :: int
  msg_text :: string
  reply_to_text :: "string option"
  msg_command :: "(string \<times> string option) option"

datatype update = Message message | Callback_query int string

section \<open>Command handlers\<close>

definition cmd_start :: "config \<Rightarrow> bot \<Rightarrow> int \<Rightarrow> bot \<times> event list" where
  "cmd_start cfg s uid =
     (if \<not> is_admin cfg uid then (s, [Answer No_access]) else (s, [Answer Welcome]))"

definition cmd_status :: "config \<Rightarrow> bot \<Rightarrow> int \<Rightarrow> bot \<times> event list" where
  "cmd_status cfg s uid =
     (if \<not> is_admin cfg uid then (s, [Answer No_access]) else (s, [Answer Status_text]))"

text \<open>\<open>get_server_info\<close> reloads the allow-list on its way.\<close>

definition cmd_info :: "config \<Rightarrow> bot \<Rightarrow> int \<Rightarrow> bot \<times> event list" where
  "cmd_info cfg s uid =
     (if \<not> is_admin cfg uid then (s, [Answer No_access])
      else (case load_whitelist s of (s1, ev1, wl) \<Rightarrow> (s1, ev1 @ [Answer Info_text])))"

definition cmd_logs :: "config \<Rightarrow> bot \<Rightarrow> int \<Rightarrow> string option \<Rightarrow> bot \<times> event list" where
  "cmd_logs cfg s uid args =
     (if \<not> is_admin cfg uid then (s, [Answer No_access])
      else
        let lines =
          (case args of
             None \<Rightarrow> 50
           | Some a \<Rightarrow>
               if a = [] then 50
               else (case py_int a of None \<Rightarrow> 50 | Some n \<Rightarrow> min n 200))
        in (s, [Answer (Logs_tail lines)]))"

definition cmd_whitelist :: "config \<Rightarrow> bot \<Rightarrow> int \<Rightarrow> bot \<times> event list" where
  "cmd_whitelist cfg s uid =
     (if \<not> is_admin cfg uid then (s, [Answer No_access]) else (s, [Answer Whitelist_menu]))"

definition cmd_backup :: "config \<Rightarrow> env \<Rightarrow> bot \<Rightarrow> int \<Rightarrow> bot \<times> event list" where
  "cmd_backup cfg e s uid =
     (if \<not> is_admin cfg uid then (s, [Answer No_access])
      else
        (case create_backup e (backup_dir s) of
           (dir1, (success, result, backup_path)) \<Rightarrow>
             (case (success, backup_path) of
                (True, Some p) \<Rightarrow>
                  (s\<lparr>backup_dir := dir1\<rparr>,
                   [Answer Creating_backup, Answer (Backup_result result)] @
                   (if upload_ok e then [Send_document (BACKUP_CHAT_ID cfg) p]
                    else [Answer Backup_not_sent]))
              | _ \<Rightarrow>
                  (s\<lparr>backup_dir := dir1\<rparr>,
                   [Answer Creating_backup, Answer (Backup_result result)]))))"

definition cmd_command ::
  "config \<Rightarrow> env \<Rightarrow> bot \<Rightarrow> int \<Rightarrow> string option \<Rightarrow> bot \<times> event list" where
  "cmd_command cfg e s uid args =
     (if \<not> is_admin cfg uid then (s, [Answer No_access])
      else (case args of
              None \<Rightarrow> (s, [Answer Usage_command])
            | Some a \<Rightarrow>
                if a = [] then (s, [Answer Usage_command])
                else (case execute_server_command e s a of
                        (s1, ev1, success) \<Rightarrow>
                          (s1, ev1 @ [Answer (if success then Command_sent a else Command_error)]))))"

definition cmd_message ::
  "config \<Rightarrow> env \<Rightarrow> bot \<Rightarrow> int \<Rightarrow> string option \<Rightarrow> bot \<times> event list" where
  "cmd_message cfg e s uid args =
     (if \<not> is_admin cfg uid then (s, [Answer No_access])
      else (case args of
              None \<Rightarrow> (s, [Answer Usage_message])
            | Some a \<Rightarrow>
                if a = [] then (s, [Answer Usage_message])
                else (case execute_server_command e s (''say '' @ a) of
                        (s1, ev1, success) \<Rightarrow>
                          (s1, ev1 @ [Answer (if success then Message_sent a else Command_error)]))))"

definition cmd_help :: "config \<Rightarrow> bot \<Rightarrow> int \<Rightarrow> bot \<times> event list" where
  "cmd_help cfg s uid =
     (if \<not> is_admin cfg uid then (s, [Answer No_access]) else (s, [Answer Help_text]))"

section \<open>Button handlers\<close>

text \<open>
  Handlers that only show a menu or a prompt: \<open>server_control\<close>, \<open>whitelist_menu\<close>,
  \<open>back_to_main\<close>, \<open>add_player\<close>, \<open>send_message\<close>, \<open>backup_settings\<close>,
  \<open>set_backup_interval\<close>, \<open>set_backup_time\<close>, \<open>set_backup_count\<close>; and the
  handlers that show server data: \<open>server_status\<close>, \<open>server_logs\<close>, \<open>service_status\<close>.
\<close>

definition callback_show :: "config \<Rightarrow> bot \<Rightarrow> int \<Rightarrow> content \<Rightarrow> bot \<times> event list" where
  "callback_show cfg s uid shown =
     (if \<not> is_admin cfg uid then (s, [Callback_answer (Some No_access) True])
      else (s, [Edit_text shown, Callback_answer None False]))"

definition callback_server_info :: "config \<Rightarrow> bot \<Rightarrow> int \<Rightarrow> bot \<times> event list" where
  "callback_server_info cfg s uid =
     (if \<not> is_admin cfg uid then (s, [Callback_answer (Some No_access) True])
      else (case load_whitelist s of
              (s1, ev1, wl) \<Rightarrow> (s1, ev1 @ [Edit_text Info_text, Callback_answer None False])))"

definition callback_show_whitelist :: "config \<Rightarrow> bot \<Rightarrow> int \<Rightarrow> bot \<times> event list" where
  "callback_show_whitelist cfg s uid =
     (if \<not> is_admin cfg uid then (s, [Callback_answer (Some No_access) True])
      else (case load_whitelist s of
              (s1, ev1, wl) \<Rightarrow>
                (s1, ev1 @ [Edit_text (if wl = [] then Whitelist_empty
                                       else Whitelist_shown (map snd wl)),
                            Callback_answer None False])))"

text \<open>\<open>start_server\<close>: \<open>systemctl start\<close>, then the status.\<close>

definition callback_start_server :: "config \<Rightarrow> env \<Rightarrow> bot \<Rightarrow> int \<Rightarrow> bot \<times> event list" where
  "callback_start_server cfg e s uid =
     (if \<not> is_admin cfg uid then (s, [Callback_answer (Some No_access) True])
      else if systemctl_ok e ''start''
      then (s, [Systemctl ''start'', Callback_answer (Some Server_starting) False,
                Edit_text Status_text])
      else (s, [Systemctl ''start'', Callback_answer (Some Systemctl_error) False]))"

text \<open>The warnings relayed to the players, as the bytes of their text.\<close>

definition stop_warning :: string where
  "stop_warning = ''say '' @ map char_of
       ([226, 154, 160, 239, 184, 143, 32, 208, 161, 208, 181, 209, 128, 208, 178, 208, 181,
         209, 128, 32, 208, 190, 209, 129, 209, 130, 208, 176, 208, 189, 208, 176, 208, 178,
         208, 187, 208, 184, 208, 178, 208, 176, 208, 181, 209, 130, 209, 129, 209, 143, 32,
         209, 135, 208, 181, 209, 128, 208, 181, 208, 183, 32, 49, 48, 32, 209, 129, 208,
         181, 208, 186, 209, 131, 208, 189, 208, 180, 33] :: nat list)"

definition restart_warning :: string where
  "restart_warning = ''say '' @ map char_of
       ([226, 154, 160, 239, 184, 143, 32, 208, 161, 208, 181, 209, 128, 208, 178, 208, 181,
         209, 128, 32, 208, 191, 208, 181, 209, 128, 208, 181, 208, 183, 208, 176, 208, 179,
         209, 128, 209, 131, 208, 182, 208, 176, 208, 181, 209, 130, 209, 129, 209, 143, 32,
         209, 135, 208, 181, 209, 128, 208, 181, 208, 183, 32, 49, 48, 32, 209, 129, 208,
         181, 208, 186, 209, 131, 208, 189, 208, 180, 33] :: nat list)"

text \<open>\<open>stop_server\<close> and \<open>restart_server\<close>: warn the players, then \<open>systemctl\<close>.\<close>

definition callback_stop_server :: "config \<Rightarrow> env \<Rightarrow> bot \<Rightarrow> int \<Rightarrow> bot \<times> event list" where
  "callback_stop_server cfg e s uid =
     (if \<not> is_admin cfg uid then (s, [Callback_answer (Some No_access) True])
      else (case execute_server_command e s stop_warning of
              (s1, ev1, ok) \<Rightarrow>
                if systemctl_ok e ''stop''
                then (s1, ev1 @ [Systemctl ''stop'', Callback_answer (Some Server_stopped) False,
                                 Edit_text Status_text])
                else (s1, ev1 @ [Systemctl ''stop'',
                                 Callback_answer (Some Systemctl_error) False])))"

definition callback_restart_server :: "config \<Rightarrow> env \<Rightarrow> bot \<Rightarrow> int \<Rightarrow> bot \<times> event list" where
  "callback_restart_server cfg e s uid =
     (if \<not> is_admin cfg uid then (s, [Callback_answer (Some No_access) True])
      else (case execute_server_command e s restart_warning of
              (s1, ev1, ok) \<Rightarrow>
                if systemctl_ok e ''restart''
                then (s1, ev1 @ [Systemctl ''restart'',
                                 Callback_answer (Some Server_restarting) False,
                                 Edit_text Status_text])
                else (s1, ev1 @ [Systemctl ''restart'',
                                 Callback_answer (Some Systemctl_error) False])))"

text \<open>
  The buttons that relay one fixed server command: \<open>save_world\<close>, \<open>weather_clear\<close>,
  \<open>weather_rain\<close>, \<open>weather_thunder\<close>, \<open>time_day\<close>, \<open>time_night\<close>, \<open>list_players\<close>,
  \<open>refresh_whitelist\<close>.
\<close>

definition callback_relay :: "config \<Rightarrow> env \<Rightarrow> bot \<Rightarrow> int \<Rightarrow> string \<Rightarrow> bot \<times> event list" where
  "callback_relay cfg e s uid cmd =
     (if \<not> is_admin cfg uid then (s, [Callback_answer (Some No_access) True])
      else (case execute_server_command e s cmd of
              (s1, ev1, ok) \<Rightarrow>
                (s1, ev1 @ [Callback_answer (Some (Command_dispatched cmd)) False])))"

definition callback_remove_player :: "config \<Rightarrow> bot \<Rightarrow> int \<Rightarrow> bot \<times> event list" where
  "callback_remove_player cfg s uid =
     (if \<not> is_admin cfg uid then (s, [Callback_answer (Some No_access) True])
      else (case load_whitelist s of
              (s1, ev1, wl) \<Rightarrow>
                (s1, ev1 @ [Edit_text (if wl = [] then Whitelist_empty
                                       else Choose_player (map snd wl)),
                            Callback_answer None False])))"

definition callback_remove_player_confirm ::
  "config \<Rightarrow> env \<Rightarrow> bot \<Rightarrow> int \<Rightarrow> string \<Rightarrow> bot \<times> event list" where
  "callback_remove_player_confirm cfg e s uid data =
     (if \<not> is_admin cfg uid then (s, [Callback_answer (Some No_access) True])
      else
        let player_name = remove_all ''remove_player_'' data in
        case load_whitelist s of
          (s1, ev1, wl) \<Rightarrow>
            let new_whitelist = filter (\<lambda>p. snd p \<noteq> player_name) wl in
            if length new_whitelist = length wl
            then (s1, ev1 @ [Edit_text (Player_not_found player_name),
                             Callback_answer None False])
            else
              (case save_whitelist e s1 new_whitelist of
                 (s2, ev2, saved) \<Rightarrow>
                   if saved then
                     (case execute_server_command e s2 (''whitelist remove '' @ player_name) of
                        (s3, ev3, ok3) \<Rightarrow>
                          (case execute_server_command e s3 ''whitelist reload'' of
                             (s4, ev4, ok4) \<Rightarrow>
                               (s4, ev1 @ ev2 @ ev3 @ ev4 @
                                    [Edit_text (Player_removed player_name),
                                     Callback_answer None False])))
                   else (s2, ev1 @ ev2 @ [Edit_text (Remove_error player_name),
                                          Callback_answer None False])))"

definition callback_create_backup :: "config \<Rightarrow> env \<Rightarrow> bot \<Rightarrow> int \<Rightarrow> bot \<times> event list" where
  "callback_create_backup cfg e s uid =
     (if \<not> is_admin cfg uid then (s, [Callback_answer (Some No_access) True])
      else
        (case create_backup e (backup_dir s) of
           (dir1, (success, result, backup_path)) \<Rightarrow>
             (case (success, backup_path) of
                (True, Some p) \<Rightarrow>
                  (s\<lparr>backup_dir := dir1\<rparr>,
                   [Edit_text Creating_backup, Edit_text (Backup_result result)] @
                   (if upload_ok e then [Send_document (BACKUP_CHAT_ID cfg) p]
                    else [Edit_text Backup_not_sent]) @
                   [Callback_answer None False])
              | _ \<Rightarrow>
                  (s\<lparr>backup_dir := dir1\<rparr>,
                   [Edit_text Creating_backup, Edit_text (Backup_result result),
                    Callback_answer None False]))))"

definition callback_toggle_auto_backup ::
  "config \<Rightarrow> env \<Rightarrow> bot \<Rightarrow> int \<Rightarrow> bot \<times> event list" where
  "callback_toggle_auto_backup cfg e s uid =
     (if \<not> is_admin cfg uid then (s, [Callback_answer (Some No_access) True])
      else
        let enabled = \<not> truthy (dict_get (backup_settings s) ''enabled'' (JBool False));
            s1 = s\<lparr>backup_settings := (backup_settings s)(''enabled'' \<mapsto> JBool enabled)\<rparr>
        in case save_backup_settings e s1 of
             (s2, ev2, saved) \<Rightarrow>
               (case setup_auto_backup e s2 of
                  (s3, ev3) \<Rightarrow>
                    (s3, ev2 @ ev3 @ [Callback_answer (Some (Toggled enabled)) False,
                                      Edit_text Settings_view])))"

definition callback_set_interval ::
  "config \<Rightarrow> env \<Rightarrow> bot \<Rightarrow> int \<Rightarrow> string \<Rightarrow> bot \<times> event list" where
  "callback_set_interval cfg e s uid data =
     (if \<not> is_admin cfg uid then (s, [Callback_answer (Some No_access) True])
      else
        let interval = remove_all ''interval_'' data;
            s1 = s\<lparr>backup_settings := (backup_settings s)(''interval'' \<mapsto> JStr interval)\<rparr>
        in case save_backup_settings e s1 of
             (s2, ev2, saved) \<Rightarrow>
               (case setup_auto_backup e s2 of
                  (s3, ev3) \<Rightarrow>
                    (s3, ev2 @ ev3 @ [Callback_answer (Some (Interval_set interval)) False,
                                      Edit_text Settings_view])))"

section \<open>Free text: \<open>handle_text\<close>\<close>

text \<open>
  The fragments of the bot's prompts that \<open>handle_text\<close> looks for in the replied-to
  text, as the bytes of their text.
\<close>

definition marker_nickname :: string where
  "marker_nickname = map char_of
       ([208, 189, 208, 184, 208, 186, 208, 189, 208, 181, 208, 185, 208, 188, 32, 208, 184,
         208, 179, 209, 128, 208, 190, 208, 186, 208, 176] :: nat list)"

definition marker_message :: string where
  "marker_message = map char_of
       ([209, 129, 208, 190, 208, 190, 208, 177, 209, 137, 208, 181, 208, 189, 208, 184, 208,
         181, 32, 208, 180, 208, 187, 209, 143, 32, 208, 190, 209, 130, 208, 191, 209, 128,
         208, 176, 208, 178, 208, 186, 208, 184] :: nat list)"

definition marker_time :: string where
  "marker_time = map char_of
       ([208, 178, 209, 128, 208, 181, 208, 188, 209, 143, 32, 208, 180, 208, 187, 209, 143,
         32, 208, 177, 209, 141, 208, 186, 208, 176, 208, 191, 208, 190, 208, 178] :: nat list)"

definition marker_count :: string where
  "marker_count = map char_of
       ([208, 186, 208, 190, 208, 187, 208, 184, 209, 135, 208, 181, 209, 129, 209, 130, 208,
         178, 208, 190, 32, 208, 177, 209, 141, 208, 186, 208, 176, 208, 191, 208, 190, 208,
         178] :: nat list)"

definition replies_to :: "string option \<Rightarrow> string \<Rightarrow> bool" where
  "replies_to r marker = (case r of None \<Rightarrow> False | Some t \<Rightarrow> t \<noteq> [] \<and> sublist marker t)"

text \<open>The validation of the time branch; \<open>None\<close> stands for \<open>ValueError\<close>.\<close>

definition parse_time :: "string \<Rightarrow> (int \<times> int) option" where
  "parse_time time_text =
     (case split_on CHR '':'' time_text of
        [a, b] \<Rightarrow>
          (case py_int a of
             None \<Rightarrow> None
           | Some hour \<Rightarrow>
               (case py_int b of
                  None \<Rightarrow> None
                | Some minute \<Rightarrow>
                    if 0 \<le> hour \<and> hour \<le> 23 \<and> 0 \<le> minute \<and> minute \<le> 59
                    then Some (hour, minute) else None))
      | _ \<Rightarrow> None)"

text \<open>
  The four branches of \<open>handle_text\<close>. In the first, \<open>append\<close> changes the list that
  \<open>load_whitelist\<close> returned, which is the cache itself.
\<close>

definition text_add_player :: "env \<Rightarrow> bot \<Rightarrow> string \<Rightarrow> bot \<times> event list" where
  "text_add_player e s txt =
     (let player_name = strip txt in
      case load_whitelist s of
        (s1, ev1, wl) \<Rightarrow>
          if player_name \<in> set (map snd wl)
          then (s1, ev1 @ [Answer (Player_exists player_name)])
          else
            let wl' = wl @ [([], player_name)] in
            (case save_whitelist e (s1\<lparr>whitelist_cache := wl'\<rparr>) wl' of
               (s2, ev2, saved) \<Rightarrow>
                 if saved then
                   (case execute_server_command e s2 (''whitelist add '' @ player_name) of
                      (s3, ev3, success) \<Rightarrow>
                        (case execute_server_command e s3 ''whitelist reload'' of
                           (s4, ev4, ok4) \<Rightarrow>
                             (s4, ev1 @ ev2 @ ev3 @ ev4 @
                                  [Answer (if success then Player_added player_name
                                           else Player_added_file_only)])))
                 else (s2, ev1 @ ev2 @ [Answer (Add_error player_name)])))"

definition text_send_message :: "env \<Rightarrow> bot \<Rightarrow> string \<Rightarrow> bot \<times> event list" where
  "text_send_message e s txt =
     (let t = strip txt in
      case execute_server_command e s (''say '' @ t) of
        (s1, ev1, success) \<Rightarrow>
          (s1, ev1 @ [Answer (if success then Message_sent t else Command_error)]))"

definition text_set_time :: "env \<Rightarrow> bot \<Rightarrow> string \<Rightarrow> bot \<times> event list" where
  "text_set_time e s txt =
     (case parse_time (strip txt) of
        None \<Rightarrow> (s, [Answer Time_invalid])
      | Some (hour, minute) \<Rightarrow>
          let formatted_time = fmt02d hour @ '':'' @ fmt02d minute;
              s1 = s\<lparr>backup_settings := (backup_settings s)(''time'' \<mapsto> JStr formatted_time)\<rparr>
          in case save_backup_settings e s1 of
               (s2, ev2, saved) \<Rightarrow>
                 (case setup_auto_backup e s2 of
                    (s3, ev3) \<Rightarrow> (s3, ev2 @ ev3 @ [Answer (Time_set formatted_time)])))"

definition text_set_count :: "env \<Rightarrow> bot \<Rightarrow> string \<Rightarrow> bot \<times> event list" where
  "text_set_count e s txt =
     (case py_int (strip txt) of
        None \<Rightarrow> (s, [Answer Count_invalid])
      | Some count \<Rightarrow>
          if count < 1 \<or> count > 50 then (s, [Answer Count_invalid])
          else
            let s1 = s\<lparr>backup_settings := (backup_settings s)(''keep_count'' \<mapsto> JInt count)\<rparr>
            in case save_backup_settings e s1 of
                 (s2, ev2, saved) \<Rightarrow> (s2, ev2 @ [Answer (Count_set count)]))"

definition handle_text :: "config \<Rightarrow> env \<Rightarrow> bot \<Rightarrow> message \<Rightarrow> bot \<times> event list" where
  "handle_text cfg e s m =
     (if \<not> is_admin cfg (from_user_id m) then (s, [])
      else if replies_to (reply_to_text m) marker_nickname then text_add_player e s (msg_text m)
      else if replies_to (reply_to_text m) marker_message then text_send_message e s (msg_text m)
      else if replies_to (reply_to_text m) marker_time then text_set_time e s (msg_text m)
      else if replies_to (reply_to_text m) marker_count then text_set_count e s (msg_text m)
      else (s, [Answer Main_menu]))"

section \<open>Dispatch\<close>

text \<open>
  The router tries the handlers of a kind of update in the order of their registration
  and runs the first whose filter matches; an update no filter matches runs no handler.
\<close>

definition handle_message :: "config \<Rightarrow> env \<Rightarrow> bot \<Rightarrow> message \<Rightarrow> bot \<times> event list" where
  "handle_message cfg e s m =
     (let uid = from_user_id m;
          name = (case msg_command m of None \<Rightarrow> [] | Some (n, a) \<Rightarrow> n);
          args = (case msg_command m of None \<Rightarrow> None | Some (n, a) \<Rightarrow> a)
      in if name = ''start'' then cmd_start cfg s uid
         else if name = ''status'' then cmd_status cfg s uid
         else if name = ''info'' then cmd_info cfg s uid
         else if name = ''logs'' then cmd_logs cfg s uid args
         else if name = ''whitelist'' then cmd_whitelist cfg s uid
         else if name = ''backup'' then cmd_backup cfg e s uid
         else if name = ''command'' then cmd_command cfg e s uid args
         else if name = ''message'' then cmd_message cfg e s uid args
         else if name = ''help'' then cmd_help cfg s uid
         else if msg_text m \<noteq> [] then handle_text cfg e s m
         else (s, []))"

definition handle_callback :: "config \<Rightarrow> env \<Rightarrow> bot \<Rightarrow> int \<Rightarrow> string \<Rightarrow> bot \<times> event list" where
  "handle_callback cfg e s uid data =
     (if data = ''server_status'' then callback_show cfg s uid Status_text
      else if data = ''server_info'' then callback_server_info cfg s uid
      else if data = ''server_logs'' then callback_show cfg s uid (Logs_tail 50)
      else if data = ''service_status'' then callback_show cfg s uid Service_status_text
      else if data = ''server_control'' then callback_show cfg s uid Control_menu
      else if data = ''whitelist_menu'' then callback_show cfg s uid Whitelist_menu
      else if data = ''show_whitelist'' then callback_show_whitelist cfg s uid
      else if data = ''back_to_main'' then callback_show cfg s uid Main_menu
      else if data = ''start_server'' then callback_start_server cfg e s uid
      else if data = ''stop_server'' then callback_stop_server cfg e s uid
      else if data = ''restart_server'' then callback_restart_server cfg e s uid
      else if data = ''save_world'' then callback_relay cfg e s uid ''save-all''
      else if data = ''weather_clear'' then callback_relay cfg e s uid ''weather clear''
      else if data = ''weather_rain'' then callback_relay cfg e s uid ''weather rain''
      else if data = ''weather_thunder'' then callback_relay cfg e s uid ''weather thunder''
      else if data = ''time_day'' then callback_relay cfg e s uid ''time set day''
      else if data = ''time_night'' then callback_relay cfg e s uid ''time set night''
      else if data = ''list_players'' then callback_relay cfg e s uid ''list''
      else if data = ''add_player'' then callback_show cfg s uid Prompt_add_player
      else if data = ''remove_player'' then callback_remove_player cfg s uid
      else if prefix ''remove_player_'' data then callback_remove_player_confirm cfg e s uid data
      else if data = ''refresh_whitelist'' then callback_relay cfg e s uid ''whitelist reload''
      else if data = ''create_backup'' then callback_create_backup cfg e s uid
      else if data = ''send_message'' then callback_show cfg s uid Prompt_message
      else if data = ''backup_settings'' then callback_show cfg s uid Settings_view
      else if data = ''toggle_auto_backup'' then callback_toggle_auto_backup cfg e s uid
      else if data = ''set_backup_interval'' then callback_show cfg s uid Prompt_interval
      else if prefix ''interval_'' data then callback_set_interval cfg e s uid data
      else if data = ''set_backup_time'' then callback_show cfg s uid Prompt_time
      else if data = ''set_backup_count'' then callback_show cfg s uid Prompt_count
      else (s, []))"

fun handle :: "config \<Rightarrow> env \<Rightarrow> bot \<Rightarrow> update \<Rightarrow> bot \<times> event list" where
  "handle cfg e s (Message m) = handle_message cfg e s m"
| "handle cfg e s (Callback_query uid data) = handle_callback cfg e s uid data"

section \<open>Start-up and the running system\<close>

definition init_bot ::
  "config \<Rightarrow> settings disk_file \<Rightarrow> player list disk_file \<Rightarrow> dir_entry list \<Rightarrow> bot" where
  "init_bot cfg sfile wfile dir =
     \<lparr>backup_settings =
        [''enabled'' \<mapsto> JBool (AUTO_BACKUP_ENABLED cfg),
         ''interval'' \<mapsto> JStr (AUTO_BACKUP_INTERVAL cfg),
         ''time'' \<mapsto> JStr (AUTO_BACKUP_TIME cfg),
         ''keep_count'' \<mapsto> JInt (AUTO_BACKUP_KEEP_COUNT cfg)],
      backup_job = None,
      whitelist_cache = [],
      settings_file = sfile,
      whitelist_file = wfile,
      backup_dir = dir,
      command_file = []\<rparr>"

definition start_polling :: "env \<Rightarrow> bot \<Rightarrow> bot \<times> event list" where
  "start_polling e s =
     (case load_whitelist s of
        (s1, ev1, wl) \<Rightarrow>
          (case load_backup_settings s1 of
             (s2, ev2, loaded) \<Rightarrow>
               (case setup_auto_backup e s2 of
                  (s3, ev3) \<Rightarrow> (s3, ev1 @ ev2 @ ev3))))"

text \<open>
  One step of the running bot: an inbound update is handled, or the armed job fires and
  runs the scheduled pipeline. A timer that is not armed does not fire.
\<close>

datatype step = Inbound update | Timer_fired

fun do_step :: "config \<Rightarrow> bot \<Rightarrow> env \<times> step \<Rightarrow> bot \<times> event list" where
  "do_step cfg s (e, Inbound u) = handle cfg e s u"
| "do_step cfg s (e, Timer_fired) =
     (case backup_job s of None \<Rightarrow> (s, []) | Some job \<Rightarrow> auto_backup_task cfg e s)"

fun run :: "config \<Rightarrow> bot \<Rightarrow> (env \<times> step) list \<Rightarrow> bot" where
  "run cfg s [] = s"
| "run cfg s (x # xs) = run cfg (fst (do_step cfg s x)) xs"

section \<open>Properties named by the specification\<close>

text \<open>The requester of an update.\<close>

fun requester :: "update \<Rightarrow> int" where
  "requester (Message m) = from_user_id m"
| "requester (Callback_query uid data) = uid"

text \<open>The commands and the callback data that have a handler, as the source registers them.\<close>

definition registered_commands :: "string list" where
  "registered_commands =
     [''start'', ''status'', ''info'', ''logs'', ''whitelist'', ''backup'', ''command'',
      ''message'', ''help'']"

definition registered_buttons :: "string list" where
  "registered_buttons =
     [''server_status'', ''server_info'', ''server_logs'', ''service_status'',
      ''server_control'', ''whitelist_menu'', ''show_whitelist'', ''back_to_main'',
      ''start_server'', ''stop_server'', ''restart_server'', ''save_world'',
      ''weather_clear'', ''weather_rain'', ''weather_thunder'', ''time_day'', ''time_night'',
      ''list_players'', ''add_player'', ''remove_player'', ''refresh_whitelist'',
      ''create_backup'', ''send_message'', ''backup_settings'', ''toggle_auto_backup'',
      ''set_backup_interval'', ''set_backup_time'', ''set_backup_count'']"

definition is_command_message :: "message \<Rightarrow> bool" where
  "is_command_message m =
     (case msg_command m of None \<Rightarrow> False | Some (n, a) \<Rightarrow> n \<in> set registered_commands)"

definition is_button :: "string \<Rightarrow> bool" where
  "is_button data =
     (data \<in> set registered_buttons \<or> prefix ''remove_player_'' data \<or> prefix ''interval_'' data)"

text \<open>A time of day written \<open>HH:MM\<close>, hour 0-23 and minute 0-59.\<close>

definition valid_time :: "string \<Rightarrow> bool" where
  "valid_time t =
     (case t of
        [a, b, c, d, e] \<Rightarrow>
          is_digit a \<and> is_digit b \<and> c = CHR '':'' \<and> is_digit d \<and> is_digit e
          \<and> 10 * digit_val a + digit_val b \<le> 23 \<and> 10 * digit_val d + digit_val e \<le> 59
      | _ \<Rightarrow> False)"

text \<open>The invariant of the backup settings: \<open>keep_count\<close> in 1..50, \<open>time\<close> a valid time.\<close>

definition settings_invariant :: "settings \<Rightarrow> bool" where
  "settings_invariant st =
     ((case st ''keep_count'' of Some (JInt k) \<Rightarrow> 1 \<le> k \<and> k \<le> 50 | _ \<Rightarrow> False)
      \<and> (case st ''time'' of Some (JStr t) \<Rightarrow> valid_time t | _ \<Rightarrow> False))"

section \<open>Example states\<close>

definition example_cfg :: config where
  "example_cfg =
     \<lparr>ADMIN_ID = 1000, BACKUP_CHAT_ID = - 200, AUTO_BACKUP_ENABLED = False,
      AUTO_BACKUP_INTERVAL = ''daily'', AUTO_BACKUP_TIME = ''03:00'',
      AUTO_BACKUP_KEEP_COUNT = 7\<rparr>"

definition example_env :: env where
  "example_env =
     \<lparr>world_exists = True, stamp = ''20240104_030000'', now = 400, tar = Tar_ok,
      upload_ok = True, rcon_ok = (\<lambda>c. False), command_file_ok = True,
      systemctl_ok = (\<lambda>a. True), settings_writable = True, whitelist_writable = True,
      crontab_ok = (\<lambda>spec. True)\<rparr>"

definition backup_at :: "string \<Rightarrow> int \<Rightarrow> dir_entry" where
  "backup_at ts t = \<lparr>fname = backup_name_of ts, mtime = t, locked = False, intact = True\<rparr>"

definition example_settings :: settings where
  "example_settings =
     [''enabled'' \<mapsto> JBool True, ''interval'' \<mapsto> JStr ''daily'',
      ''time'' \<mapsto> JStr ''03:00'', ''keep_count'' \<mapsto> JInt 2]"

definition example_dir :: "dir_entry list" where
  "example_dir =
     [backup_at ''20240101_030000'' 100,
      \<lparr>fname = ''notes.txt'', mtime = 250, locked = False, intact = True\<rparr>,
      backup_at ''20240103_030000'' 300,
      backup_at ''20240102_030000'' 200]"

definition example_dir_pruned :: "dir_entry list" where
  "example_dir_pruned =
     [\<lparr>fname = ''notes.txt'', mtime = 250, locked = False, intact = True\<rparr>,
      backup_at ''20240103_030000'' 300]"

text \<open>The interval names the scheduler has a branch for.\<close>

definition recognized_intervals :: "string list" where
  "recognized_intervals = [''15min'', ''30min'', ''hourly'', ''daily'', ''weekly'']"

text \<open>What a run of successful deletions leaves in the trace.\<close>

fun deletion_events :: "dir_entry list \<Rightarrow> event list" where
  "deletion_events [] = []"
| "deletion_events (f # fs) =
     Unlinked (fname f) # Log_info (Deleted_old_backup (fname f)) # deletion_events fs"

definition example_bot :: bot where
  "example_bot = init_bot example_cfg Absent Absent example_dir"

definition stranger_text :: message where
  "stranger_text =
     \<lparr>from_user_id = 42, msg_text = ''hello'', reply_to_text = None, msg_command = None\<rparr>"

definition example_settings_keep1 :: settings where
  "example_settings_keep1 = example_settings(''keep_count'' \<mapsto> JInt 1)"

definition example_dir_locked :: "dir_entry list" where
  "example_dir_locked =
     [backup_at ''20240101_030000'' 100,
      (backup_at ''20240102_030000'' 200)\<lparr>locked := True\<rparr>,
      backup_at ''20240103_030000'' 300]"

definition example_dir_four :: "dir_entry list" where
  "example_dir_four =
     [backup_at ''20240101_030000'' 100,
      (backup_at ''20240102_030000'' 200)\<lparr>locked := True\<rparr>,
      backup_at ''20240103_030000'' 300,
      backup_at ''20240104_030000'' 400]"

definition bot_keep1 :: bot where
  "bot_keep1 =
     (init_bot example_cfg Absent Absent [backup_at ''20240103_030000'' 300])
       \<lparr>backup_settings := example_settings_keep1\<rparr>"

definition backup_command :: message where
  "backup_command =
     \<lparr>from_user_id = 1000, msg_text = ''/backup'', reply_to_text = None,
      msg_command = Some (''backup'', None)\<rparr>"

definition settings_bad_time :: settings where
  "settings_bad_time =
     [''enabled'' \<mapsto> JBool True, ''interval'' \<mapsto> JStr ''hourly'',
      ''time'' \<mapsto> JStr ''0300'', ''keep_count'' \<mapsto> JInt 7]"

definition bot_bad_time :: bot where
  "bot_bad_time =
     fst (start_polling example_env (init_bot example_cfg (Holds settings_bad_time) Absent []))"

definition settings_unknown_interval :: settings where
  "settings_unknown_interval =
     [''enabled'' \<mapsto> JBool True, ''interval'' \<mapsto> JStr ''monthly'',
      ''time'' \<mapsto> JStr ''03:00'', ''keep_count'' \<mapsto> JInt 7]"

definition bot_armed :: bot where
  "bot_armed = example_bot\<lparr>backup_job := Some ''0 3 * * *''\<rparr>"

definition settings_out_of_range :: settings where
  "settings_out_of_range =
     [''enabled'' \<mapsto> JBool False, ''interval'' \<mapsto> JStr ''daily'',
      ''time'' \<mapsto> JStr ''99:99'', ''keep_count'' \<mapsto> JInt 0]"

definition count_reply :: message where
  "count_reply =
     \<lparr>from_user_id = 1000, msg_text = '' 5 '', reply_to_text = Some marker_count,
      msg_command = None\<rparr>"

section \<open>Authorization is exact equality\<close>

text \<open>
  Claim C2. The authorization predicate is true exactly when the requester identity equals
  the configured administrator identity; for every other integer, zero and the negative
  ones included, it is false. The predicate is a total function: it has no error result.
\<close>

theorem is_admin_iff: "is_admin cfg user_id \<longleftrightarrow> user_id = ADMIN_ID cfg"
  by (simp add: is_admin_def)

section \<open>Retention keeps the newest artifacts\<close>

lemma unlink_each_unlocked:
  "\<forall>f \<in> set fs. \<not> locked f \<Longrightarrow>
   unlink_each fs dir = (filter (\<lambda>g. fname g \<notin> fname ` set fs) dir, deletion_events fs)"
proof (induction fs arbitrary: dir)
  case Nil
  then show ?case by simp
next
  case (Cons f fs)
  have "filter (\<lambda>g. fname g \<notin> fname ` set fs) (filter (\<lambda>g. fname g \<noteq> fname f) dir)
          = filter (\<lambda>g. fname g \<notin> fname ` set (f # fs)) dir"
    by (auto intro: filter_cong)
  with Cons show ?case by simp
qed

lemma no_failure_in_deletion_events: "Log_error Cleanup_failed \<notin> set (deletion_events fs)"
  by (induction fs) simp_all

lemma sorted_newest_first: "sorted (map (\<lambda>f. - mtime f) (newest_first fs))"
  by (simp add: newest_first_def)

lemma set_newest_first: "set (newest_first fs) = set fs"
  by (simp add: newest_first_def)

lemma distinct_newest_first: "distinct (newest_first fs) = distinct fs"
  by (simp add: newest_first_def)

lemma length_newest_first: "length (newest_first fs) = length fs"
  by (simp add: newest_first_def)

lemma take_newer_than_drop:
  assumes "distinct (map mtime fs)"
    and "a \<in> set (take k (newest_first fs))" and "b \<in> set (drop k (newest_first fs))"
  shows "mtime b < mtime a"
proof -
  let ?s = "newest_first fs"
  have "sorted (map (\<lambda>f. - mtime f) (take k ?s @ drop k ?s))"
    using sorted_newest_first by simp
  then have "- mtime a \<le> - mtime b"
    using assms(2,3) unfolding map_append sorted_append by auto
  moreover have "distinct (map mtime ?s)"
    using assms(1) by (simp add: newest_first_def distinct_map inj_on_def) 
  then have "distinct (map mtime (take k ?s @ drop k ?s))" by simp
  then have "mtime a \<noteq> mtime b"
    using assms(2,3) unfolding map_append distinct_append by auto
  ultimately show ?thesis by simp
qed

lemma glob_after_unlink:
  assumes names: "distinct (map fname dir)"
    and sub: "set olds \<subseteq> set (glob_backups dir)"
  shows "glob_backups (filter (\<lambda>g. fname g \<notin> fname ` set olds) dir)
         = filter (\<lambda>g. g \<notin> set olds) (glob_backups dir)"
proof -
  have inj: "inj_on fname (set dir)"
    using names by (simp add: distinct_map)
  have "\<And>g. g \<in> set dir \<Longrightarrow> (fname g \<in> fname ` set olds) = (g \<in> set olds)"
  proof -
    fix g assume g: "g \<in> set dir"
    have "set olds \<subseteq> set dir" using sub by (auto simp: glob_backups_def)
    then show "(fname g \<in> fname ` set olds) = (g \<in> set olds)"
      using inj g by (auto dest: inj_onD)
  qed
  then show ?thesis
    unfolding glob_backups_def filter_filter
    by (intro filter_cong) auto
qed

lemma survivors_of_take:
  assumes d: "distinct xs" and s: "set ys = set xs" and dy: "distinct ys"
  shows "set (filter (\<lambda>g. g \<notin> set (drop k ys)) xs) = set (take k ys)"
    and "length (filter (\<lambda>g. g \<notin> set (drop k ys)) xs) = min (length xs) k"
proof -
  have split: "set ys = set (take k ys) \<union> set (drop k ys)"
    by (metis append_take_drop_id set_append)
  have disj: "set (take k ys) \<inter> set (drop k ys) = {}"
    using dy by (metis append_take_drop_id distinct_append)
  show a: "set (filter (\<lambda>g. g \<notin> set (drop k ys)) xs) = set (take k ys)"
    using split disj s by auto
  have "length (filter (\<lambda>g. g \<notin> set (drop k ys)) xs)
        = card (set (filter (\<lambda>g. g \<notin> set (drop k ys)) xs))"
    using d by (metis distinct_card distinct_filter)
  also have "\<dots> = card (set (take k ys))" using a by simp
  also have "\<dots> = length (take k ys)"
    using dy by (simp add: distinct_card)
  finally have l: "length (filter (\<lambda>g. g \<notin> set (drop k ys)) xs) = length (take k ys)" .
  have "length ys = length xs"
    using d dy s by (metis distinct_card)
  with l show "length (filter (\<lambda>g. g \<notin> set (drop k ys)) xs) = min (length xs) k"
    by simp
qed

text \<open>
  Claim C3. Let the backup directory hold artifacts with pairwise different modification
  times (and, as in any directory, pairwise different names), let the keep count be an
  integer \<open>k \<ge> 0\<close>, and let every excess artifact, that is every artifact after the
  first \<open>k\<close> in newest-first order, be one the operating system lets the bot unlink.
  Then the retention pass logs no failure; the number of artifacts it leaves is the
  minimum of their number before and \<open>k\<close>; the artifacts left are the first \<open>k\<close> in
  newest-first order; and every artifact left is newer than every artifact deleted.
\<close>

theorem retention_keeps_newest:
  assumes kc: "dict_get st ''keep_count'' (JInt 7) = JInt k" and k0: "0 \<le> k"
    and names: "distinct (map fname dir)"
    and times: "distinct (map mtime (glob_backups dir))"
    and free: "\<forall>f \<in> set (drop (nat k) (newest_first (glob_backups dir))). \<not> locked f"
  shows "Log_error Cleanup_failed \<notin> set (snd (cleanup_old_backups st dir))
       \<and> length (glob_backups (fst (cleanup_old_backups st dir)))
           = min (length (glob_backups dir)) (nat k)
       \<and> set (glob_backups (fst (cleanup_old_backups st dir)))
           = set (take (nat k) (newest_first (glob_backups dir)))
       \<and> (\<forall>a \<in> set (glob_backups (fst (cleanup_old_backups st dir))).
            \<forall>b \<in> set (glob_backups dir) - set (glob_backups (fst (cleanup_old_backups st dir))).
              mtime b < mtime a)"
proof -
  let ?arts = "glob_backups dir"
  let ?srt = "newest_first ?arts"
  let ?olds = "drop (nat k) ?srt"
  let ?dir' = "fst (cleanup_old_backups st dir)"
  have darts: "distinct ?arts"
    using times by (simp add: distinct_map)
  have dsrt: "distinct ?srt" using darts by (simp add: distinct_newest_first)
  have ssrt: "set ?srt = set ?arts" by (rule set_newest_first)
  have res: "cleanup_old_backups st dir
               = (filter (\<lambda>g. fname g \<notin> fname ` set ?olds) dir,
                  Retention_pass # deletion_events ?olds)"
  proof (cases "int (length ?arts) > k")
    case False
    then have "?olds = []"
      by (simp add: length_newest_first)
    with False kc show ?thesis
      by (simp add: cleanup_old_backups_def length_newest_first Let_def)
  next
    case True
    with kc k0 unlink_each_unlocked [OF free, of dir] show ?thesis
      by (simp add: cleanup_old_backups_def length_newest_first slice_int_def Let_def)
  qed
  have s0: "Log_error Cleanup_failed \<notin> set (snd (cleanup_old_backups st dir))"
    by (simp add: res no_failure_in_deletion_events)
  have "set ?olds \<subseteq> set ?arts"
    using ssrt by (metis set_drop_subset)
  then have surv: "glob_backups ?dir' = filter (\<lambda>g. g \<notin> set ?olds) ?arts"
    using glob_after_unlink [OF names] by (simp add: res)
  have s1: "set (glob_backups ?dir') = set (take (nat k) ?srt)"
    unfolding surv using survivors_of_take(1) [OF darts ssrt dsrt] .
  have s2: "length (glob_backups ?dir') = min (length ?arts) (nat k)"
    unfolding surv using survivors_of_take(2) [OF darts ssrt dsrt] .
  have s3: "\<forall>a \<in> set (glob_backups ?dir').
              \<forall>b \<in> set ?arts - set (glob_backups ?dir'). mtime b < mtime a"
  proof (intro ballI)
    fix a b
    assume a: "a \<in> set (glob_backups ?dir')" and b: "b \<in> set ?arts - set (glob_backups ?dir')"
    from a s1 have a': "a \<in> set (take (nat k) ?srt)" by simp
    have "set ?arts = set (take (nat k) ?srt) \<union> set ?olds"
      using ssrt by (metis append_take_drop_id set_append)
    with b s1 have b': "b \<in> set ?olds" by auto
    show "mtime b < mtime a"
      using take_newer_than_drop [OF times a' b'] .
  qed
  from s0 s2 s1 s3 show ?thesis by blast
qed

lemma example_glob:
  "glob_backups example_dir =
     [backup_at ''20240101_030000'' 100, backup_at ''20240103_030000'' 300,
      backup_at ''20240102_030000'' 200]"
  by (simp add: glob_backups_def example_dir_def backup_at_def is_backup_name_def
        prefix_name_def suffix_name_def suffix_to_prefix backup_name_of_def)

lemma keep1: "dict_get example_settings_keep1 ''keep_count'' (JInt 7) = JInt 1"
  by (simp add: example_settings_keep1_def dict_get_def)

lemma example_cleanup:
  "cleanup_old_backups example_settings_keep1 example_dir =
     (example_dir_pruned,
      [Retention_pass,
       Unlinked (backup_name_of ''20240102_030000''),
       Log_info (Deleted_old_backup (backup_name_of ''20240102_030000'')),
       Unlinked (backup_name_of ''20240101_030000''),
       Log_info (Deleted_old_backup (backup_name_of ''20240101_030000''))])"
  by (simp add: cleanup_old_backups_def example_glob newest_first_def keep1
        slice_int_def backup_at_def)
     (simp add: example_dir_def example_dir_pruned_def backup_at_def backup_name_of_def)

lemma example_glob_pruned:
  "glob_backups example_dir_pruned = [backup_at ''20240103_030000'' 300]"
  by (simp add: glob_backups_def example_dir_pruned_def backup_at_def is_backup_name_def
        prefix_name_def suffix_name_def suffix_to_prefix backup_name_of_def)

theorem retention_keeps_newest_witness:
  "dict_get example_settings_keep1 ''keep_count'' (JInt 7) = JInt 1
   \<and> distinct (map fname example_dir)
   \<and> distinct (map mtime (glob_backups example_dir))
   \<and> drop (nat 1) (newest_first (glob_backups example_dir))
       = [backup_at ''20240102_030000'' 200, backup_at ''20240101_030000'' 100]
   \<and> \<not> locked (backup_at ''20240102_030000'' 200)
   \<and> \<not> locked (backup_at ''20240101_030000'' 100)
   \<and> fst (cleanup_old_backups example_settings_keep1 example_dir) = example_dir_pruned
   \<and> Log_error Cleanup_failed
       \<notin> set (snd (cleanup_old_backups example_settings_keep1 example_dir))
   \<and> length (glob_backups example_dir) = 3
   \<and> length (glob_backups example_dir_pruned) = 1
   \<and> set (glob_backups example_dir_pruned) = {backup_at ''20240103_030000'' 300}"
proof -
  have h2: "(0::int) \<le> 1" by simp
  have h3: "distinct (map fname example_dir)"
    by (simp add: example_dir_def backup_at_def backup_name_of_def)
  have h4: "distinct (map mtime (glob_backups example_dir))"
    by (simp add: example_glob backup_at_def)
  have olds: "drop (nat 1) (newest_first (glob_backups example_dir))
       = [backup_at ''20240102_030000'' 200, backup_at ''20240101_030000'' 100]"
    by (simp add: example_glob newest_first_def backup_at_def)
  have l: "\<not> locked (backup_at ''20240102_030000'' 200)
           \<and> \<not> locked (backup_at ''20240101_030000'' 100)"
    by (simp add: backup_at_def)
  have h5: "\<forall>f \<in> set (drop (nat 1) (newest_first (glob_backups example_dir))). \<not> locked f"
    unfolding olds using l by simp
  from retention_keeps_newest [OF keep1 h2 h3 h4 h5]
  have "Log_error Cleanup_failed
          \<notin> set (snd (cleanup_old_backups example_settings_keep1 example_dir))
        \<and> length (glob_backups example_dir_pruned) = min (length (glob_backups example_dir)) (nat 1)
        \<and> set (glob_backups example_dir_pruned)
            = set (take (nat 1) (newest_first (glob_backups example_dir)))"
    by (simp add: example_cleanup)
  then have "Log_error Cleanup_failed
          \<notin> set (snd (cleanup_old_backups example_settings_keep1 example_dir))
        \<and> length (glob_backups example_dir_pruned) = 1
        \<and> set (glob_backups example_dir_pruned) = {backup_at ''20240103_030000'' 300}"
    by (simp add: example_glob newest_first_def backup_at_def)
  with keep1 h3 h4 olds l show ?thesis
    by (simp add: example_cleanup example_glob)
qed

section \<open>A failed deletion ends the retention pass\<close>

lemma example_glob_locked: "glob_backups example_dir_locked = example_dir_locked"
  by (simp add: glob_backups_def example_dir_locked_def backup_at_def is_backup_name_def
        prefix_name_def suffix_name_def suffix_to_prefix backup_name_of_def)

lemma example_glob_four: "glob_backups example_dir_four = example_dir_four"
  by (simp add: glob_backups_def example_dir_four_def backup_at_def is_backup_name_def
        prefix_name_def suffix_name_def suffix_to_prefix backup_name_of_def)

text \<open>
  Claim C6 as stated fails. Three artifacts, keep count 1, the second newest cannot be
  unlinked: the pass logs the failure and ends. The oldest artifact is excess and can be
  unlinked, yet it is still in the directory: the deletions after the failed one are not
  attempted.
\<close>

theorem cleanup_stops_at_failed_deletion:
  "cleanup_old_backups example_settings_keep1 example_dir_locked
     = (example_dir_locked, [Retention_pass, Log_error Cleanup_failed])
   \<and> backup_at ''20240101_030000'' 100 \<in> set example_dir_locked
   \<and> \<not> locked (backup_at ''20240101_030000'' 100)"
  by (simp add: cleanup_old_backups_def example_glob_locked newest_first_def keep1)
     (simp add: example_dir_locked_def backup_at_def slice_int_def)

lemma unlink_each_stops:
  "\<forall>g \<in> set pre. \<not> locked g \<Longrightarrow> locked f \<Longrightarrow>
   unlink_each (pre @ f # post) dir
     = (filter (\<lambda>g. fname g \<notin> fname ` set pre) dir,
        deletion_events pre @ [Log_error Cleanup_failed])"
proof (induction pre arbitrary: dir)
  case Nil
  then show ?case by simp
next
  case (Cons p pre)
  then have "unlink_each (pre @ f # post) (filter (\<lambda>g. fname g \<noteq> fname p) dir)
     = (filter (\<lambda>g. fname g \<notin> fname ` set pre) (filter (\<lambda>g. fname g \<noteq> fname p) dir),
        deletion_events pre @ [Log_error Cleanup_failed])"
    by simp
  moreover have
    "filter (\<lambda>g. fname g \<notin> fname ` set pre) (filter (\<lambda>g. fname g \<noteq> fname p) dir)
     = filter (\<lambda>g. fname g \<notin> fname ` set (p # pre)) dir"
    by (auto intro: filter_cong)
  ultimately show ?case using Cons.prems by simp
qed

text \<open>
  Claim C6, amended. Let the keep count be an integer \<open>k \<ge> 0\<close> and let the excess
  artifacts, newest first, be \<open>pre\<close>, then \<open>f\<close>, then \<open>post\<close>, where the files of \<open>pre\<close>
  can be unlinked and \<open>f\<close> cannot. The pass returns normally: it deletes and logs the
  files of \<open>pre\<close>, logs one failure, and ends there, so \<open>f\<close> and the files of \<open>post\<close> stay
  in the directory. What was deleted is told by the log; the function returns no list.
\<close>

theorem cleanup_failure_contained:
  assumes kc: "dict_get st ''keep_count'' (JInt 7) = JInt k" and k0: "0 \<le> k"
    and excess: "drop (nat k) (newest_first (glob_backups dir)) = pre @ f # post"
    and pre: "\<forall>g \<in> set pre. \<not> locked g" and f: "locked f"
  shows "cleanup_old_backups st dir
           = (filter (\<lambda>g. fname g \<notin> fname ` set pre) dir,
              Retention_pass # deletion_events pre @ [Log_error Cleanup_failed])"
proof -
  have "length (newest_first (glob_backups dir)) > nat k"
    using excess by (metis drop_eq_Nil not_le append_is_Nil_conv list.distinct(1))
  then have gt: "int (length (newest_first (glob_backups dir))) > k"
    using k0 by linarith
  show ?thesis
    using kc k0 gt excess unlink_each_stops [OF pre f]
    by (simp add: cleanup_old_backups_def slice_int_def)
qed

theorem cleanup_failure_contained_witness:
  "dict_get example_settings_keep1 ''keep_count'' (JInt 7) = JInt 1
   \<and> drop (nat 1) (newest_first (glob_backups example_dir_four))
       = [backup_at ''20240103_030000'' 300]
         @ (backup_at ''20240102_030000'' 200)\<lparr>locked := True\<rparr>
         # [backup_at ''20240101_030000'' 100]
   \<and> cleanup_old_backups example_settings_keep1 example_dir_four
       = ([backup_at ''20240101_030000'' 100,
           (backup_at ''20240102_030000'' 200)\<lparr>locked := True\<rparr>,
           backup_at ''20240104_030000'' 400],
          [Retention_pass, Unlinked (backup_name_of ''20240103_030000''),
           Log_info (Deleted_old_backup (backup_name_of ''20240103_030000'')),
           Log_error Cleanup_failed])"
proof -
  have h2: "(0::int) \<le> 1" by simp
  have h3: "drop (nat 1) (newest_first (glob_backups example_dir_four))
       = [backup_at ''20240103_030000'' 300]
         @ (backup_at ''20240102_030000'' 200)\<lparr>locked := True\<rparr>
         # [backup_at ''20240101_030000'' 100]"
    by (simp add: example_glob_four newest_first_def)
       (simp add: example_dir_four_def backup_at_def)
  have h4: "\<forall>g \<in> set [backup_at ''20240103_030000'' 300]. \<not> locked g"
    by (simp add: backup_at_def)
  have h5: "locked ((backup_at ''20240102_030000'' 200)\<lparr>locked := True\<rparr>)"
    by simp
  from cleanup_failure_contained [OF keep1 h2 h3 h4 h5] keep1 h3
  show ?thesis
    by (simp add: example_dir_four_def backup_at_def backup_name_of_def)
qed

section \<open>A failed archive is reported, and may leave a partial file\<close>

text \<open>
  Claim C7 as stated fails. When \<open>tar.add\<close> fails after the archive file was opened,
  \<open>create_backup\<close> reports the failure, and the file stays in the backup directory
  under a name that matches the artifact pattern, although it was not written to the end.
\<close>

theorem failed_archive_leaves_partial_file:
  "create_backup (example_env\<lparr>tar := Tar_add_fails\<rparr>) []
     = ([\<lparr>fname = ''world_backup_20240104_030000.tar.gz'', mtime = 400, locked = False,
          intact = False\<rparr>], (False, Create_error, None))
   \<and> is_backup_name ''world_backup_20240104_030000.tar.gz''"
  by (simp add: create_backup_def example_env_def write_file_def backup_name_of_def
        prefix_name_def suffix_name_def is_backup_name_def suffix_to_prefix)

text \<open>
  Claim C7, amended. When the world directory exists and writing the archive fails,
  \<open>create_backup\<close> returns the failure outcome: no success, the error message, no path.
  When the failure comes before the output file is opened, the directory is unchanged;
  when it comes after, the partial file is left in the backup directory under the
  artifact name (there is no temporary name and no removal of the partial output).
\<close>

theorem archive_failure_outcome:
  assumes "world_exists e" and "tar e \<noteq> Tar_ok"
  shows "snd (create_backup e dir) = (False, Create_error, None)
       \<and> (tar e = Tar_open_fails \<longrightarrow> fst (create_backup e dir) = dir)
       \<and> (tar e = Tar_add_fails \<longrightarrow>
            \<lparr>fname = backup_name_of (stamp e), mtime = now e, locked = False, intact = False\<rparr>
              \<in> set (fst (create_backup e dir))
            \<and> is_backup_name (backup_name_of (stamp e)))"
  using assms
  by (cases "tar e")
     (simp_all add: create_backup_def write_file_def is_backup_name_def backup_name_of_def
        suffix_def Let_def)

theorem archive_failure_outcome_witness:
  "world_exists (example_env\<lparr>tar := Tar_add_fails\<rparr>)
   \<and> tar (example_env\<lparr>tar := Tar_add_fails\<rparr>) \<noteq> Tar_ok
   \<and> snd (create_backup (example_env\<lparr>tar := Tar_add_fails\<rparr>) example_dir)
       = (False, Create_error, None)
   \<and> \<lparr>fname = backup_name_of ''20240104_030000'', mtime = 400, locked = False,
        intact = False\<rparr>
       \<in> set (fst (create_backup (example_env\<lparr>tar := Tar_add_fails\<rparr>) example_dir))"
proof -
  have h1: "world_exists (example_env\<lparr>tar := Tar_add_fails\<rparr>)"
    by (simp add: example_env_def)
  have h2: "tar (example_env\<lparr>tar := Tar_add_fails\<rparr>) \<noteq> Tar_ok"
    by simp
  from archive_failure_outcome [OF h1 h2, of example_dir] h1 h2
  show ?thesis by (simp add: example_env_def)
qed

section \<open>A failed archive ends the pipeline run\<close>



section \<open>The manual backup paths run no retention pass\<close>

lemma is_backup_name_of: "is_backup_name (backup_name_of ts)"
  by (simp add: is_backup_name_def backup_name_of_def suffix_def)

lemma bot_keep1_archive:
  "create_backup example_env [backup_at ''20240103_030000'' 300]
     = ([backup_at ''20240103_030000'' 300, backup_at ''20240104_030000'' 400],
        (True, Created (backup_name_of ''20240104_030000''),
         Some (backup_name_of ''20240104_030000'')))"
  by (simp add: create_backup_def example_env_def write_file_def backup_at_def
        backup_name_of_def Let_def)

lemma glob_two:
  "glob_backups [backup_at ''20240103_030000'' 300, backup_at ''20240104_030000'' 400]
     = [backup_at ''20240103_030000'' 300, backup_at ''20240104_030000'' 400]"
  by (simp add: glob_backups_def backup_at_def is_backup_name_def prefix_name_def
        suffix_name_def suffix_to_prefix backup_name_of_def)

text \<open>
  Claim C4: the code departs from it. With keep count 1 and one artifact on disk, a
  manual backup by the administrator, by command or by button, leaves two artifacts: the
  manual handlers call \<open>create_backup\<close> and never \<open>cleanup_old_backups\<close>. The scheduled
  task on the same state runs the retention pass and leaves one.
\<close>

theorem manual_backup_exceeds_keep_count:
  "is_admin example_cfg 1000
   \<and> dict_get (backup_settings bot_keep1) ''keep_count'' (JInt 7) = JInt 1
   \<and> length (glob_backups (backup_dir (fst (handle example_cfg example_env bot_keep1
                (Message backup_command))))) = 2
   \<and> Retention_pass \<notin> set (snd (handle example_cfg example_env bot_keep1
                (Message backup_command)))
   \<and> length (glob_backups (backup_dir (fst (handle example_cfg example_env bot_keep1
                (Callback_query 1000 ''create_backup''))))) = 2
   \<and> Retention_pass \<notin> set (snd (handle example_cfg example_env bot_keep1
                (Callback_query 1000 ''create_backup'')))
   \<and> length (glob_backups (backup_dir (fst (auto_backup_task example_cfg example_env
                bot_keep1)))) = 1"
proof -
  have d: "backup_dir bot_keep1 = [backup_at ''20240103_030000'' 300]"
    and st: "backup_settings bot_keep1 = example_settings_keep1"
    by (simp_all add: bot_keep1_def init_bot_def)
  have a: "is_admin example_cfg 1000"
    by (simp add: is_admin_def example_cfg_def)
  have m: "handle example_cfg example_env bot_keep1 (Message backup_command)
             = (bot_keep1\<lparr>backup_dir := [backup_at ''20240103_030000'' 300,
                                         backup_at ''20240104_030000'' 400]\<rparr>,
                [Answer Creating_backup,
                 Answer (Backup_result (Created (backup_name_of ''20240104_030000''))),
                 Send_document (- 200) (backup_name_of ''20240104_030000'')])"
    using a
    by (simp add: handle_message_def backup_command_def cmd_backup_def d bot_keep1_archive)
       (simp add: example_env_def example_cfg_def)
  have b: "handle example_cfg example_env bot_keep1 (Callback_query 1000 ''create_backup'')
             = (bot_keep1\<lparr>backup_dir := [backup_at ''20240103_030000'' 300,
                                         backup_at ''20240104_030000'' 400]\<rparr>,
                [Edit_text Creating_backup,
                 Edit_text (Backup_result (Created (backup_name_of ''20240104_030000''))),
                 Send_document (- 200) (backup_name_of ''20240104_030000''),
                 Callback_answer None False])"
    using a
    by (simp add: handle_callback_def callback_create_backup_def d bot_keep1_archive)
       (simp add: example_env_def example_cfg_def)
  have c: "cleanup_old_backups example_settings_keep1
             [backup_at ''20240103_030000'' 300, backup_at ''20240104_030000'' 400]
           = ([backup_at ''20240104_030000'' 400],
              [Retention_pass, Unlinked (backup_name_of ''20240103_030000''),
               Log_info (Deleted_old_backup (backup_name_of ''20240103_030000''))])"
    by (simp add: cleanup_old_backups_def glob_two keep1)
       (simp add: newest_first_def slice_int_def backup_at_def backup_name_of_def)
  have t: "backup_dir (fst (auto_backup_task example_cfg example_env bot_keep1))
             = [backup_at ''20240104_030000'' 400]"
    by (simp add: auto_backup_task_def d st bot_keep1_archive c)
  have g1: "glob_backups [backup_at ''20240104_030000'' 400] = [backup_at ''20240104_030000'' 400]"
    by (simp add: glob_backups_def backup_at_def is_backup_name_of)
  show ?thesis
    by (simp add: a st keep1 m b t glob_two g1 del: handle.simps)
qed

section \<open>Reconfiguring the schedule\<close>

lemma bot_bad_time_eq:
  "bot_bad_time = (init_bot example_cfg (Holds settings_bad_time) Absent [])
     \<lparr>backup_settings := settings_bad_time, backup_job := Some ''0 * * * *''\<rparr>"
  by (simp add: bot_bad_time_def start_polling_def load_whitelist_def load_backup_settings_def
       setup_auto_backup_def init_bot_def settings_bad_time_def dict_get_def cron_spec_def
       example_env_def Let_def)

text \<open>
  Claim C5 as stated fails. The bot starts with a settings file that enables hourly
  backups and holds the time \<open>0300\<close>; the hourly job is armed. The administrator then
  chooses the daily interval. Computing the daily schedule fails on the time, the failure
  is logged, and the hourly job, cancelled before the attempt, is not restored: backups
  stay enabled and no job is armed.
\<close>

theorem failed_reschedule_drops_previous_job:
  "backup_job bot_bad_time = Some ''0 * * * *''
   \<and> is_admin example_cfg 1000
   \<and> backup_job (fst (handle example_cfg example_env bot_bad_time
                        (Callback_query 1000 ''interval_daily''))) = None
   \<and> truthy (dict_get (backup_settings (fst (handle example_cfg example_env bot_bad_time
                        (Callback_query 1000 ''interval_daily'')))) ''enabled'' (JBool False))
   \<and> Log_error Backup_setup_failed
       \<in> set (snd (handle example_cfg example_env bot_bad_time
                        (Callback_query 1000 ''interval_daily'')))"
  by (simp add: bot_bad_time_eq handle_callback_def callback_set_interval_def is_admin_def
        example_cfg_def save_backup_settings_def setup_auto_backup_def example_env_def
        init_bot_def settings_bad_time_def dict_get_def cron_spec_def Let_def)

text \<open>
  Claim C5, amended. When backups are enabled and computing the schedule raises, or the
  cron library refuses the expression, the failure stays inside the reconfiguration
  call: it is logged and the call returns. The job armed before has already been
  cancelled and stays cancelled, and the settings are unchanged, so backups remain
  enabled with no job armed.
\<close>

theorem setup_failure_cancels_job:
  assumes "truthy (dict_get (backup_settings s) ''enabled'' (JBool False))"
    and "cron_spec (dict_get (backup_settings s) ''interval'' (JStr ''daily''))
                   (dict_get (backup_settings s) ''time'' (JStr ''03:00'')) = Inl err
         \<or> (\<exists>spec. cron_spec (dict_get (backup_settings s) ''interval'' (JStr ''daily''))
                   (dict_get (backup_settings s) ''time'' (JStr ''03:00'')) = Inr (Some spec)
                \<and> \<not> crontab_ok e spec)"
  shows "setup_auto_backup e s =
           (s\<lparr>backup_job := None\<rparr>,
            (case backup_job s of None \<Rightarrow> [] | Some job \<Rightarrow> [Stop_job job])
              @ [Log_error Backup_setup_failed])"
  using assms by (auto simp: setup_auto_backup_def Let_def)

theorem setup_failure_cancels_job_witness:
  "truthy (dict_get (backup_settings (bot_armed\<lparr>backup_settings := settings_bad_time
             (''interval'' \<mapsto> JStr ''daily'')\<rparr>)) ''enabled'' (JBool False))
   \<and> cron_spec (JStr ''daily'') (JStr ''0300'') = Inl ValueError
   \<and> setup_auto_backup example_env
        (bot_armed\<lparr>backup_settings := settings_bad_time(''interval'' \<mapsto> JStr ''daily'')\<rparr>)
       = (bot_armed\<lparr>backup_settings := settings_bad_time(''interval'' \<mapsto> JStr ''daily''),
                     backup_job := None\<rparr>,
          [Stop_job ''0 3 * * *'', Log_error Backup_setup_failed])"
proof -
  let ?s = "bot_armed\<lparr>backup_settings := settings_bad_time(''interval'' \<mapsto> JStr ''daily'')\<rparr>"
  have h1: "truthy (dict_get (backup_settings ?s) ''enabled'' (JBool False))"
    by (simp add: settings_bad_time_def dict_get_def)
  have c: "cron_spec (JStr ''daily'') (JStr ''0300'') = Inl ValueError"
    by (simp add: cron_spec_def)
  have h2: "cron_spec (dict_get (backup_settings ?s) ''interval'' (JStr ''daily''))
                   (dict_get (backup_settings ?s) ''time'' (JStr ''03:00'')) = Inl ValueError
         \<or> (\<exists>spec. cron_spec (dict_get (backup_settings ?s) ''interval'' (JStr ''daily''))
                   (dict_get (backup_settings ?s) ''time'' (JStr ''03:00'')) = Inr (Some spec)
                \<and> \<not> crontab_ok example_env spec)"
    by (simp add: settings_bad_time_def dict_get_def c)
  from setup_failure_cancels_job [OF h1 h2] h1 c
  show ?thesis by (simp add: bot_armed_def)
qed

text \<open>
  Claim C10. The settings file is installed as loaded, without a check of its values.
  When backups are enabled and the interval is none of the five names the scheduler
  knows, reconfiguration cancels the armed job, arms none, and logs nothing: the trace
  holds the cancellation only, and the settings still say enabled.
\<close>

theorem unknown_interval_disarms_silently:
  assumes "truthy (dict_get st ''enabled'' (JBool False))"
    and "\<forall>i \<in> set recognized_intervals. dict_get st ''interval'' (JStr ''daily'') \<noteq> JStr i"
  shows "(backup_settings s = st \<longrightarrow>
            setup_auto_backup e s =
              (s\<lparr>backup_job := None\<rparr>,
               case backup_job s of None \<Rightarrow> [] | Some job \<Rightarrow> [Stop_job job]))
       \<and> (settings_file s = Holds st \<longrightarrow>
            load_backup_settings s = (s\<lparr>backup_settings := st\<rparr>, [], True))"
  using assms
  by (auto simp: setup_auto_backup_def Let_def cron_spec_def recognized_intervals_def
        load_backup_settings_def)

theorem unknown_interval_disarms_silently_witness:
  "truthy (dict_get settings_unknown_interval ''enabled'' (JBool False))
   \<and> dict_get settings_unknown_interval ''interval'' (JStr ''daily'') = JStr ''monthly''
   \<and> ''monthly'' \<notin> set recognized_intervals
   \<and> setup_auto_backup example_env (bot_armed\<lparr>backup_settings := settings_unknown_interval\<rparr>)
       = (bot_armed\<lparr>backup_settings := settings_unknown_interval, backup_job := None\<rparr>,
          [Stop_job ''0 3 * * *''])
   \<and> load_backup_settings (bot_armed\<lparr>settings_file := Holds settings_unknown_interval\<rparr>)
       = (bot_armed\<lparr>settings_file := Holds settings_unknown_interval,
                     backup_settings := settings_unknown_interval\<rparr>, [], True)"
proof -
  have h1: "truthy (dict_get settings_unknown_interval ''enabled'' (JBool False))"
    by (simp add: settings_unknown_interval_def dict_get_def)
  have h2: "\<forall>i \<in> set recognized_intervals.
              dict_get settings_unknown_interval ''interval'' (JStr ''daily'') \<noteq> JStr i"
    by (simp add: settings_unknown_interval_def dict_get_def recognized_intervals_def)
  from unknown_interval_disarms_silently [OF h1 h2,
         of "bot_armed\<lparr>backup_settings := settings_unknown_interval\<rparr>" example_env]
  have a: "setup_auto_backup example_env
             (bot_armed\<lparr>backup_settings := settings_unknown_interval\<rparr>)
           = (bot_armed\<lparr>backup_settings := settings_unknown_interval, backup_job := None\<rparr>,
              [Stop_job ''0 3 * * *''])"
    by (simp add: bot_armed_def)
  from unknown_interval_disarms_silently [OF h1 h2,
         of "bot_armed\<lparr>settings_file := Holds settings_unknown_interval\<rparr>" example_env]
  have b: "load_backup_settings (bot_armed\<lparr>settings_file := Holds settings_unknown_interval\<rparr>)
           = (bot_armed\<lparr>settings_file := Holds settings_unknown_interval,
                         backup_settings := settings_unknown_interval\<rparr>, [], True)"
    by simp
  have i: "dict_get settings_unknown_interval ''interval'' (JStr ''daily'') = JStr ''monthly''"
    by (simp add: settings_unknown_interval_def dict_get_def)
  have n: "''monthly'' \<notin> set recognized_intervals"
    by (simp add: recognized_intervals_def)
  from h1 i n a b show ?thesis by blast
qed

section \<open>Requests of anyone but the administrator\<close>

lemma handle_message_rejects:
  "\<not> is_admin cfg (from_user_id m) \<Longrightarrow>
   handle_message cfg e s m = (s, if is_command_message m then [Answer No_access] else [])"
  by (auto simp: handle_message_def Let_def is_command_message_def registered_commands_def
        cmd_start_def cmd_status_def cmd_info_def cmd_logs_def cmd_whitelist_def
        cmd_backup_def cmd_command_def cmd_message_def cmd_help_def handle_text_def
      split: option.splits)

lemma handle_callback_rejects:
  "\<not> is_admin cfg uid \<Longrightarrow>
   handle_callback cfg e s uid data
     = (s, if is_button data then [Callback_answer (Some No_access) True] else [])"
  by (simp add: handle_callback_def is_button_def registered_buttons_def
        callback_show_def callback_server_info_def callback_show_whitelist_def
        callback_start_server_def callback_stop_server_def callback_restart_server_def
        callback_relay_def callback_remove_player_def callback_remove_player_confirm_def
        callback_create_backup_def callback_toggle_auto_backup_def callback_set_interval_def)

text \<open>
  Claim C1 as stated fails. A free-text message of a requester who is not the
  administrator is dropped: the state is unchanged, and the trace is empty, so the
  requester receives no rejection notice.
\<close>

theorem stranger_text_gets_no_notice:
  "\<not> is_admin example_cfg (requester (Message stranger_text))
   \<and> handle example_cfg example_env example_bot (Message stranger_text) = (example_bot, [])"
  by (simp add: is_admin_def example_cfg_def stranger_text_def handle_message_def
        handle_text_def)

text \<open>
  Claim C1, amended. For every inbound request whose requester is not the administrator,
  the handler does nothing but the admin check and its rejection: the state is unchanged
  and the trace holds no server command, no disclosure and no other action. A registered
  command is answered with the rejection notice, and so is a press of a button that has
  a handler. Free text, an unregistered command included, is dropped without a reply;
  callback data without a handler runs no handler.
\<close>

theorem unauthorized_request_rejected:
  assumes "\<not> is_admin cfg (requester u)"
  shows "handle cfg e s u =
           (s, case u of
                 Message m \<Rightarrow> if is_command_message m then [Answer No_access] else []
               | Callback_query uid data \<Rightarrow>
                   if is_button data then [Callback_answer (Some No_access) True] else [])"
  using assms by (cases u) (simp_all add: handle_message_rejects handle_callback_rejects)

theorem unauthorized_request_rejected_witness:
  "\<not> is_admin example_cfg (requester (Callback_query 42 ''stop_server''))
   \<and> handle example_cfg example_env example_bot (Callback_query 42 ''stop_server'')
       = (example_bot, [Callback_answer (Some No_access) True])"
proof -
  have h: "\<not> is_admin example_cfg (requester (Callback_query 42 ''stop_server''))"
    by (simp add: is_admin_def example_cfg_def)
  from unauthorized_request_rejected [OF h, of example_env example_bot] h
  show ?thesis by (simp add: is_button_def registered_buttons_def)
qed

section \<open>The settings invariant\<close>

text \<open>
  Claim C9 as stated fails. A settings file holding keep count 0 and time \<open>99:99\<close> is
  installed at start-up as it is: the state after start-up violates the invariant.
\<close>

theorem loaded_settings_violate_invariant:
  "\<not> settings_invariant (backup_settings (fst (start_polling example_env
        (init_bot example_cfg (Holds settings_out_of_range) Absent []))))"
  by (simp add: start_polling_def load_whitelist_def load_backup_settings_def
        setup_auto_backup_def init_bot_def settings_out_of_range_def dict_get_def
        settings_invariant_def Let_def)

lemma of_char_digit_char: "d < 10 \<Longrightarrow> (of_char (digit_char d) :: nat) = 48 + d"
  by (simp add: digit_char_def)

lemma is_digit_digit_char: "d < 10 \<Longrightarrow> is_digit (digit_char d)"
  by (simp add: is_digit_def of_char_digit_char)

lemma digit_val_digit_char: "d < 10 \<Longrightarrow> digit_val (digit_char d) = d"
  by (simp add: digit_val_def of_char_digit_char)

lemma fmt02d_two_digits:
  assumes "0 \<le> n" and "n < 100"
  shows "fmt02d n = [digit_char (nat n div 10), digit_char (nat n mod 10)]"
proof (cases "n < 10")
  case True
  then have "nat n < 10" using assms by simp
  then have "dec (nat n) = [digit_char (nat n)]" by (simp add: dec.simps)
  moreover have "digit_char 0 = CHR ''0''" by code_simp
  ultimately show ?thesis using True assms \<open>nat n < 10\<close> by (simp add: fmt02d_def)
next
  case False
  then have ge: "\<not> nat n < 10" by simp
  have "nat n div 10 < 10" using assms by simp
  then have "dec (nat n div 10) = [digit_char (nat n div 10)]" by (simp add: dec.simps)
  then have "dec (nat n) = [digit_char (nat n div 10), digit_char (nat n mod 10)]"
    using ge by (subst dec.simps) simp
  then show ?thesis using False assms by (simp add: fmt02d_def)
qed

lemma valid_time_formatted:
  assumes "0 \<le> hour" "hour \<le> 23" "0 \<le> minute" "minute \<le> 59"
  shows "valid_time (fmt02d hour @ CHR '':'' # fmt02d minute)"
proof -
  have h: "fmt02d hour = [digit_char (nat hour div 10), digit_char (nat hour mod 10)]"
    using assms by (intro fmt02d_two_digits) simp_all
  have m: "fmt02d minute = [digit_char (nat minute div 10), digit_char (nat minute mod 10)]"
    using assms by (intro fmt02d_two_digits) simp_all
  have "nat hour div 10 < 10" "nat minute div 10 < 10" using assms by simp_all
  moreover have "10 * (nat hour div 10) + nat hour mod 10 \<le> 23" using assms by simp
  moreover have "10 * (nat minute div 10) + nat minute mod 10 \<le> 59" using assms by simp
  ultimately show ?thesis
    unfolding h m by (simp add: valid_time_def is_digit_digit_char digit_val_digit_char)
qed

lemma parse_time_range:
  "parse_time t = Some (hour, minute) \<Longrightarrow> 0 \<le> hour \<and> hour \<le> 23 \<and> 0 \<le> minute \<and> minute \<le> 59"
  by (auto simp: parse_time_def split: list.splits option.splits if_splits)

lemma invariant_other_key:
  "k \<noteq> ''keep_count'' \<Longrightarrow> k \<noteq> ''time'' \<Longrightarrow> settings_invariant (st(k \<mapsto> v)) = settings_invariant st"
  by (simp add: settings_invariant_def)


lemma load_whitelist_settings:
  "load_whitelist s = (s1, ev, wl) \<Longrightarrow> backup_settings s1 = backup_settings s"
  by (auto simp: load_whitelist_def split: disk_file.splits)

lemma save_whitelist_settings:
  "save_whitelist e s wl = (s1, ev, ok) \<Longrightarrow> backup_settings s1 = backup_settings s"
  by (auto simp: save_whitelist_def split: if_splits)

lemma execute_server_command_settings:
  "execute_server_command e s c = (s1, ev, ok) \<Longrightarrow> backup_settings s1 = backup_settings s"
  by (auto simp: execute_server_command_def split: if_splits)

lemma save_backup_settings_settings:
  "save_backup_settings e s = (s1, ev, ok) \<Longrightarrow> backup_settings s1 = backup_settings s"
  by (auto simp: save_backup_settings_def split: if_splits)

lemma setup_auto_backup_settings:
  "setup_auto_backup e s = (s1, ev) \<Longrightarrow> backup_settings s1 = backup_settings s"
  by (auto simp: setup_auto_backup_def Let_def split: if_splits sum.splits option.splits)

lemmas sub_settings =
  load_whitelist_settings save_whitelist_settings execute_server_command_settings
  save_backup_settings_settings setup_auto_backup_settings

lemma cmd_settings:
  "backup_settings (fst (cmd_start cfg s uid)) = backup_settings s"
  "backup_settings (fst (cmd_status cfg s uid)) = backup_settings s"
  "backup_settings (fst (cmd_info cfg s uid)) = backup_settings s"
  "backup_settings (fst (cmd_logs cfg s uid args)) = backup_settings s"
  "backup_settings (fst (cmd_whitelist cfg s uid)) = backup_settings s"
  "backup_settings (fst (cmd_backup cfg e s uid)) = backup_settings s"
  "backup_settings (fst (cmd_command cfg e s uid args)) = backup_settings s"
  "backup_settings (fst (cmd_message cfg e s uid args)) = backup_settings s"
  "backup_settings (fst (cmd_help cfg s uid)) = backup_settings s"
  by (auto simp: cmd_start_def cmd_status_def cmd_info_def cmd_logs_def cmd_whitelist_def
        cmd_backup_def cmd_command_def cmd_message_def cmd_help_def Let_def
      split: prod.splits option.splits bool.splits dest!: sub_settings)

lemma callback_settings:
  "backup_settings (fst (callback_show cfg s uid shown)) = backup_settings s"
  "backup_settings (fst (callback_server_info cfg s uid)) = backup_settings s"
  "backup_settings (fst (callback_show_whitelist cfg s uid)) = backup_settings s"
  "backup_settings (fst (callback_start_server cfg e s uid)) = backup_settings s"
  "backup_settings (fst (callback_stop_server cfg e s uid)) = backup_settings s"
  "backup_settings (fst (callback_restart_server cfg e s uid)) = backup_settings s"
  "backup_settings (fst (callback_relay cfg e s uid cmd)) = backup_settings s"
  "backup_settings (fst (callback_remove_player cfg s uid)) = backup_settings s"
  "backup_settings (fst (callback_create_backup cfg e s uid)) = backup_settings s"
  by (auto simp: callback_show_def callback_server_info_def callback_show_whitelist_def
        callback_start_server_def callback_stop_server_def callback_restart_server_def
        callback_relay_def callback_remove_player_def callback_create_backup_def
      split: prod.splits option.splits bool.splits dest!: sub_settings)

lemma callback_remove_player_confirm_settings:
  "backup_settings (fst (callback_remove_player_confirm cfg e s uid data)) = backup_settings s"
  by (auto simp: callback_remove_player_confirm_def Let_def
      split: prod.splits dest!: sub_settings)

lemma text_settings:
  "backup_settings (fst (text_add_player e s txt)) = backup_settings s"
  "backup_settings (fst (text_send_message e s txt)) = backup_settings s"
  by (auto simp: text_add_player_def text_send_message_def Let_def
      split: prod.splits dest!: sub_settings)

lemma toggle_invariant:
  "settings_invariant (backup_settings s) \<Longrightarrow>
   settings_invariant (backup_settings (fst (callback_toggle_auto_backup cfg e s uid)))"
  by (auto simp: callback_toggle_auto_backup_def Let_def invariant_other_key
      split: prod.splits dest!: sub_settings)

lemma set_interval_invariant:
  "settings_invariant (backup_settings s) \<Longrightarrow>
   settings_invariant (backup_settings (fst (callback_set_interval cfg e s uid data)))"
  by (auto simp: callback_set_interval_def Let_def invariant_other_key
      split: prod.splits dest!: sub_settings)

lemma set_time_invariant:
  "settings_invariant (backup_settings s) \<Longrightarrow>
   settings_invariant (backup_settings (fst (text_set_time e s txt)))"
  by (auto simp: text_set_time_def Let_def settings_invariant_def valid_time_formatted
      split: prod.splits option.splits dest!: sub_settings parse_time_range)

lemma set_count_invariant:
  "settings_invariant (backup_settings s) \<Longrightarrow>
   settings_invariant (backup_settings (fst (text_set_count e s txt)))"
  by (auto simp: text_set_count_def Let_def settings_invariant_def
      split: prod.splits option.splits dest!: sub_settings)

lemma handle_text_invariant:
  "settings_invariant (backup_settings s) \<Longrightarrow>
   settings_invariant (backup_settings (fst (handle_text cfg e s m)))"
  by (simp add: handle_text_def text_settings set_time_invariant set_count_invariant)

lemma handle_message_invariant:
  "settings_invariant (backup_settings s) \<Longrightarrow>
   settings_invariant (backup_settings (fst (handle_message cfg e s m)))"
  by (simp add: handle_message_def Let_def cmd_settings handle_text_invariant)

lemma handle_callback_invariant:
  "settings_invariant (backup_settings s) \<Longrightarrow>
   settings_invariant (backup_settings (fst (handle_callback cfg e s uid data)))"
  by (simp add: handle_callback_def callback_settings callback_remove_player_confirm_settings
        toggle_invariant set_interval_invariant)

lemma auto_backup_task_settings:
  "backup_settings (fst (auto_backup_task cfg e s)) = backup_settings s"
  by (auto simp: auto_backup_task_def split: prod.splits option.splits bool.splits)

lemma do_step_invariant:
  "settings_invariant (backup_settings s) \<Longrightarrow>
   settings_invariant (backup_settings (fst (do_step cfg s x)))"
proof (cases x)
  case (Pair e st)
  assume inv: "settings_invariant (backup_settings s)"
  show ?thesis
  proof (cases st)
    case (Inbound u)
    with Pair inv show ?thesis
      by (cases u) (simp_all add: handle_message_invariant handle_callback_invariant)
  next
    case Timer_fired
    with Pair inv show ?thesis
      by (simp add: auto_backup_task_settings split: option.splits)
  qed
qed

text \<open>
  Claim C9, amended. The handlers and the scheduled task keep the invariant: from a state
  whose keep count is an integer in 1..50 and whose time is a valid \<open>HH:MM\<close>, every
  sequence of inbound requests and timer firings leads to such a state. The values taken
  from the settings file at start-up, and from the configuration, are not checked.
\<close>

theorem settings_invariant_preserved:
  "settings_invariant (backup_settings s) \<Longrightarrow> settings_invariant (backup_settings (run cfg s steps))"
  by (induction steps arbitrary: s) (simp_all add: do_step_invariant)

lemma example_bot_invariant: "settings_invariant (backup_settings example_bot)"
  by (simp add: example_bot_def init_bot_def example_cfg_def settings_invariant_def
        valid_time_def is_digit_def digit_val_def)

lemma count_reply_marker:
  "\<not> replies_to (Some marker_count) marker_nickname
   \<and> \<not> replies_to (Some marker_count) marker_message
   \<and> \<not> replies_to (Some marker_count) marker_time
   \<and> replies_to (Some marker_count) marker_count"
  by (simp add: replies_to_def marker_nickname_def marker_message_def marker_time_def
        marker_count_def sublist_Cons_right)

lemma count_reply_handled:
  "backup_settings (fst (handle example_cfg example_env example_bot (Message count_reply)))
     ''keep_count'' = Some (JInt 5)"
  by (simp add: handle_message_def handle_text_def count_reply_def count_reply_marker
        is_admin_def example_cfg_def text_set_count_def py_int_def strip_def is_space_def
        is_digit_def digit_val_def save_backup_settings_def example_env_def Let_def)

theorem settings_invariant_preserved_witness:
  "settings_invariant (backup_settings example_bot)
   \<and> settings_invariant (backup_settings
        (run example_cfg example_bot [(example_env, Inbound (Message count_reply))]))
   \<and> backup_settings
        (run example_cfg example_bot [(example_env, Inbound (Message count_reply))])
        ''keep_count'' = Some (JInt 5)"
  using settings_invariant_preserved [OF example_bot_invariant,
          of example_cfg "[(example_env, Inbound (Message count_reply))]"]
        example_bot_invariant count_reply_handled
  by simp

end
